theory Spec2Isabelle
  imports Complex_Main "HOL-Library.Sublist" "HOL-Library.Log_Nat"
begin

section \<open>Purification TEBD: the bond update and its disentanglers\<close>

text \<open>
  A shallow embedding of \<^verbatim>\<open>tenpy/algorithms/purification_tebd.py\<close> (class
  \<^verbatim>\<open>PurificationTEBD\<close>). The entries of tensors and the truncation errors are read
  as real and complex numbers; the floats of \<^verbatim>\<open>run_imaginary\<close> are doubles.
  Every exception of the source is a value of type \<open>error\<close>; a method that mutates
  \<^verbatim>\<open>self\<close> returns the engine as it is when the method returns or raises.
\<close>

subsection \<open>Errors and scalars\<close>

datatype error =
    CollaboratorError
  | ValueError string
  | KeyError string
  | UnboundLocalError string
  | ZeroDivisionError
  | OverflowError
  | LookupError

text \<open>A tensor-algebra or state call that raises is \<open>None\<close>; the exception propagates.\<close>

definition lift :: "'a option \<Rightarrow> error + 'a" where
  "lift r = (case r of None \<Rightarrow> Inl CollaboratorError | Some v \<Rightarrow> Inr v)"

definition and_then :: "error + 'a \<Rightarrow> ('a \<Rightarrow> error + 'b) \<Rightarrow> error + 'b" where
  "and_then m k = (case m of Inl e \<Rightarrow> Inl e | Inr v \<Rightarrow> k v)"

text \<open>\<^verbatim>\<open>np.inf\<close> next to the finite floats: the initial value of \<^verbatim>\<open>Sold\<close>.\<close>

datatype xreal = PInf | Fin real

type_synonym label = string

text \<open>An axis of a contraction is named by a leg label or, as in
  \<^verbatim>\<open>axes=[1, 0]\<close>, by its position.\<close>

datatype axis = Name label | Pos nat

subsection \<open>Python floats\<close>

text \<open>A Python float is an IEEE double: a finite number (the sign of a zero is not
  kept; no operation below tells the two zeros apart), an infinity or not a number.\<close>

datatype pyfloat = Num real | PlusInf | MinusInf | NaN







subsection \<open>Configuration\<close>

text \<open>
  \<^verbatim>\<open>TEBD_params\<close> is a dictionary: a key is absent (\<open>None\<close>) or holds a value. The
  value under \<^verbatim>\<open>'disentangle'\<close> may itself be Python's \<^verbatim>\<open>None\<close>. The truncation
  options are handed on to \<^verbatim>\<open>svd_theta\<close> unread.
\<close>

record 'x params =
  p_dt :: "pyfloat option"
  p_order :: "int option"
  p_disentangle :: "string option option"
  p_disent_eps :: "real option"
  p_disent_max_iter :: "int option"
  p_trunc :: 'x

text \<open>\<^verbatim>\<open>get_parameter(par_dict, key, default, descr)\<close>: the value under the key, or
  the default when the key is absent.\<close>

definition get_parameter :: "'a option \<Rightarrow> 'a \<Rightarrow> 'a" where
  "get_parameter v dflt = (case v of None \<Rightarrow> dflt | Some x \<Rightarrow> x)"

subsection \<open>Collaborators\<close>

text \<open>
  The tensor algebra (\<^verbatim>\<open>np_conserved\<close>), the truncated factorisation
  (\<^verbatim>\<open>svd_theta\<close>) and the state (\<^verbatim>\<open>self.psi\<close>) are not part of the source file;
  the bond update is parametrised by them. \<open>'t\<close> are tensors, \<open>'w\<close> bond weight
  vectors, \<open>'g\<close> leg descriptions (pipes), \<open>'psi\<close> the matrix product state.
  Every call of a collaborator may raise, the setters of the state included; a setter
  that returns has replaced one slot, and what a setter that raises has done to the state
  before is taken to be nothing.
\<close>

record ('t, 'w, 'g, 'psi, 'x) collab =
  psi_get_theta :: "'psi \<Rightarrow> int \<Rightarrow> nat \<Rightarrow> real \<Rightarrow> 't option"
  psi_set_SR :: "'psi \<Rightarrow> int \<Rightarrow> 'w \<Rightarrow> 'psi option"
  psi_set_B :: "'psi \<Rightarrow> int \<Rightarrow> 't \<Rightarrow> string \<Rightarrow> 'psi option"
  npc_tensordot :: "'t \<Rightarrow> 't \<Rightarrow> axis list \<times> axis list \<Rightarrow> 't option"
  npc_inner :: "'t \<Rightarrow> 't \<Rightarrow> axis list \<times> axis list \<Rightarrow> complex option"
  npc_outer :: "'t \<Rightarrow> 't \<Rightarrow> 't option"
  npc_eye_like :: "'t \<Rightarrow> label \<Rightarrow> 't option"
  npc_svd :: "'t \<Rightarrow> ('t \<times> 'w \<times> 't) option"
  npc_conj :: "'t \<Rightarrow> 't option"
  npc_combine_legs :: "'t \<Rightarrow> label list list \<Rightarrow> int list \<Rightarrow> 'g list \<Rightarrow> 't option"
  npc_split_legs :: "'t \<Rightarrow> nat list \<Rightarrow> 't option"
  npc_ireplace_labels :: "'t \<Rightarrow> label list \<Rightarrow> label list \<Rightarrow> 't option"
  npc_set_leg_labels :: "'t \<Rightarrow> label list \<Rightarrow> 't option"
  npc_legs :: "'t \<Rightarrow> nat \<Rightarrow> 'g option"
  npc_idiv :: "'t \<Rightarrow> real \<Rightarrow> 't option"
  svd_theta :: "'t \<Rightarrow> 'x params \<Rightarrow> label list \<Rightarrow> ('t \<times> 'w \<times> 't \<times> real \<times> real) option"

subsection \<open>The engine\<close>

text \<open>
  The fields of \<^verbatim>\<open>self\<close> that the methods read or write. \<^verbatim>\<open>_U_param\<close> is a
  dictionary, of which only the key \<^verbatim>\<open>'type_evo'\<close> is read. The container
  \<^verbatim>\<open>_trunc_err_bonds\<close> is declared outside the source file: it holds the truncation
  error accumulators of the bonds, a scalar each. The bond index selects the accumulator;
  a subscript that the container does not hold raises (\<^verbatim>\<open>IndexError\<close> or
  \<^verbatim>\<open>KeyError\<close>, both a \<^verbatim>\<open>LookupError\<close>).
\<close>

record ('psi, 'x) engine =
  psi :: 'psi
  trunc_err_bonds :: "int \<rightharpoonup> real"
  TEBD_params :: "'x params"
  verbose :: int
  U_param_type_evo :: "string option"

subsection \<open>\<^verbatim>\<open>repr\<close> of a byte string\<close>

text \<open>Python 2's \<^verbatim>\<open>repr\<close> of a \<^verbatim>\<open>str\<close>: double quotes only when the string holds a
  single quote and no double quote; the quote, the backslash, tab, newline and carriage
  return are escaped, every other byte outside the printable ASCII range is written
  \<^verbatim>\<open>\xhh\<close>.\<close>

definition hex_digit :: "nat \<Rightarrow> char" where
  "hex_digit n = (if n < 10 then char_of (48 + n) else char_of (87 + n))"

definition repr_char :: "char \<Rightarrow> char \<Rightarrow> string" where
  "repr_char quote c =
     (if c = quote \<or> c = CHR 0x5C then [CHR 0x5C, c]
      else if c = CHR 0x09 then [CHR 0x5C, CHR ''t'']
      else if c = CHR 0x0A then [CHR 0x5C, CHR ''n'']
      else if c = CHR 0x0D then [CHR 0x5C, CHR ''r'']
      else if (of_char c :: nat) < 32 \<or> (of_char c :: nat) \<ge> 127
        then [CHR 0x5C, CHR ''x'', hex_digit (of_char c div 16), hex_digit (of_char c mod 16)]
      else [c])"

definition repr :: "string \<Rightarrow> string" where
  "repr s =
     (let quote = (if CHR 0x27 \<in> set s \<and> CHR 0x22 \<notin> set s then CHR 0x22 else CHR 0x27)
      in [quote] @ concat (map (repr_char quote) s) @ [quote])"

text \<open>The bytes that \<^verbatim>\<open>repr\<close> copies as they are, whichever quote it chooses, in a
  string without a single quote: the printable ASCII characters but the single quote and
  the backslash.\<close>

definition plain_char :: "char \<Rightarrow> bool" where
  "plain_char c \<longleftrightarrow>
     32 \<le> (of_char c :: nat) \<and> (of_char c :: nat) < 127 \<and> c \<noteq> CHR 0x27 \<and> c \<noteq> CHR 0x5C"

subsection \<open>The disentanglers\<close>

text \<open>\<^verbatim>\<open>disentangle_backwards\<close> (lines 166 to 184).\<close>

definition disentangle_backwards ::
  "('t, 'w, 'g, 'psi, 'x) collab \<Rightarrow> ('psi, 'x) engine \<Rightarrow> 't \<Rightarrow> 't \<Rightarrow> error + ('t \<times> 't option)"
where
  "disentangle_backwards nv st theta U_bond =
     (case U_param_type_evo st of
        None \<Rightarrow> Inl (KeyError ''type_evo'')
      | Some type_evo \<Rightarrow>
          if type_evo = ''imag'' then Inr (theta, None)
          else
            and_then (lift (npc_conj nv U_bond)) (\<lambda>Uc.
            and_then (lift (npc_ireplace_labels nv Uc [''p0*'', ''p1*'', ''p0'', ''p1'']
                               [''q0'', ''q1'', ''q0*'', ''q1*''])) (\<lambda>U.
            and_then (lift (npc_tensordot nv U theta
                               ([Name ''q0*'', Name ''q1*''], [Name ''q0'', Name ''q1'']))) (\<lambda>theta'.
            Inr (theta', Some U)))))"

text \<open>\<^verbatim>\<open>disentangle_renyi_iter\<close> (lines 217 to 271).\<close>

definition disentangle_renyi_iter ::
  "('t, 'w, 'g, 'psi, 'x) collab \<Rightarrow> 't \<Rightarrow> 't \<Rightarrow> error + (real \<times> 't)"
where
  "disentangle_renyi_iter nv theta U =
     and_then (lift (npc_tensordot nv U theta
                       ([Name ''q0*'', Name ''q1*''], [Name ''q0'', Name ''q1'']))) (\<lambda>U_theta.
     and_then (lift (npc_conj nv U_theta)) (\<lambda>U_theta_c.
     and_then (lift (npc_tensordot nv U_theta U_theta_c
                       ([Name ''p1'', Name ''q1'', Name ''vR''],
                        [Name ''p1*'', Name ''q1*'', Name ''vR*'']))) (\<lambda>dS1.
     and_then (lift (npc_conj nv U_theta)) (\<lambda>U_theta_c'.
     and_then (lift (npc_tensordot nv U_theta_c' dS1
                       ([Name ''vL*'', Name ''p0*'', Name ''q0*''],
                        [Name ''vL'', Name ''p0'', Name ''q0'']))) (\<lambda>dS2.
     and_then (lift (npc_tensordot nv theta dS2
                       ([Name ''vL'', Name ''p0'', Name ''vR'', Name ''p1''],
                        [Name ''vL*'', Name ''p0*'', Name ''vR*'', Name ''p1*'']))) (\<lambda>dS3.
     and_then (lift (npc_inner nv U dS3
                       ([Name ''q0'', Name ''q1'', Name ''q0*'', Name ''q1*''],
                        [Name ''q0*'', Name ''q1*'', Name ''q0'', Name ''q1'']))) (\<lambda>S2.
     and_then (lift (npc_combine_legs nv dS3 [[''q0'', ''q1''], [''q0*'', ''q1*'']] [1, -1] []))
       (\<lambda>dS.
     and_then (lift (npc_svd nv dS)) (\<lambda>(W, Y, VH).
     and_then (lift (npc_tensordot nv W VH ([Pos 1], [Pos 0]))) (\<lambda>WVH.
     and_then (lift (npc_conj nv WVH)) (\<lambda>new_U.
     and_then (lift (npc_split_legs nv new_U [0, 1])) (\<lambda>new_U'.
     Inr (- ln (Re S2), new_U')))))))))))))"

text \<open>The local variables of \<^verbatim>\<open>disentangle_renyi\<close> that the loop assigns; \<open>None\<close> is
  a name not yet bound.\<close>

record 't renyi_locals =
  l_i :: "nat option"
  l_S :: "xreal option"
  l_Sold :: xreal
  l_U :: 't

text \<open>\<^verbatim>\<open>abs(Sold - S) < eps\<close>; with \<^verbatim>\<open>Sold\<close> infinite the difference is infinite
  (or not a number) and the test is false.\<close>

definition converged :: "real \<Rightarrow> xreal \<Rightarrow> real \<Rightarrow> bool" where
  "converged eps Sold S = (case Sold of PInf \<Rightarrow> False | Fin s \<Rightarrow> \<bar>s - S\<bar> < eps)"

text \<open>The loop \<^verbatim>\<open>for i in xrange(max_iter)\<close> (lines 207 to 211), over the list of the
  indices still to come.\<close>

fun renyi_for ::
  "('t, 'w, 'g, 'psi, 'x) collab \<Rightarrow> 't \<Rightarrow> real \<Rightarrow> nat list \<Rightarrow> 't renyi_locals
     \<Rightarrow> error + 't renyi_locals"
where
  "renyi_for nv theta eps [] l = Inr l"
| "renyi_for nv theta eps (i # rest) l =
     (case disentangle_renyi_iter nv theta (l_U l) of
        Inl e \<Rightarrow> Inl e
      | Inr (S, U) \<Rightarrow>
          if converged eps (l_Sold l) S
          then Inr (l\<lparr>l_i := Some i, l_S := Some (Fin S), l_U := U\<rparr>)
          else renyi_for nv theta eps rest
                 (l\<lparr>l_i := Some i, l_S := Some (l_Sold l), l_Sold := Fin S, l_U := U\<rparr>))"

text \<open>Lines 202 to 206: the parameters and the initial \<open>U\<close>, the identity on both
  auxiliary legs.\<close>

definition renyi_identity :: "('t, 'w, 'g, 'psi, 'x) collab \<Rightarrow> 't \<Rightarrow> error + 't" where
  "renyi_identity nv theta =
     and_then (lift (npc_eye_like nv theta ''q0'')) (\<lambda>e0.
     and_then (lift (npc_set_leg_labels nv e0 [''q0'', ''q0*''])) (\<lambda>e0'.
     and_then (lift (npc_eye_like nv theta ''q1'')) (\<lambda>e1.
     and_then (lift (npc_set_leg_labels nv e1 [''q1'', ''q1*''])) (\<lambda>e1'.
     lift (npc_outer nv e0' e1')))))"

definition disentangle_renyi_loop ::
  "('t, 'w, 'g, 'psi, 'x) collab \<Rightarrow> ('psi, 'x) engine \<Rightarrow> 't \<Rightarrow> error + 't renyi_locals"
where
  "disentangle_renyi_loop nv st theta =
     (let max_iter = get_parameter (p_disent_max_iter (TEBD_params st)) 20;
          eps = get_parameter (p_disent_eps (TEBD_params st)) (1 / 10 ^ 10)
      in and_then (renyi_identity nv theta) (\<lambda>U.
         renyi_for nv theta eps [0 ..< nat max_iter]
           \<lparr>l_i = None, l_S = None, l_Sold = PInf, l_U = U\<rparr>))"

text \<open>\<^verbatim>\<open>disentangle_renyi\<close> (lines 186 to 215). The diagnostic line formats
  \<^verbatim>\<open>i\<close> and \<^verbatim>\<open>S - Sold\<close>; \<^verbatim>\<open>i\<close> is evaluated first and is unbound when the loop
  body never ran.\<close>

definition disentangle_renyi ::
  "('t, 'w, 'g, 'psi, 'x) collab \<Rightarrow> ('psi, 'x) engine \<Rightarrow> 't \<Rightarrow> error + ('t \<times> 't option)"
where
  "disentangle_renyi nv st theta =
     and_then (disentangle_renyi_loop nv st theta) (\<lambda>l.
     and_then (lift (npc_tensordot nv (l_U l) theta
                       ([Name ''q0*'', Name ''q1*''], [Name ''q0'', Name ''q1'']))) (\<lambda>theta'.
     if verbose st \<ge> 10 \<and> l_i l = None then Inl (UnboundLocalError ''i'')
     else Inr (theta', Some (l_U l))))"

text \<open>The values of \<^verbatim>\<open>S\<close> that the iterations of the loop of lines 207 to 211 produce,
  in the order in which they are produced: the loop of \<open>renyi_for\<close>, which keeps of them
  only the last two. An iteration that raises produces no value and ends the sequence.\<close>

fun renyi_values ::
  "('t, 'w, 'g, 'psi, 'x) collab \<Rightarrow> 't \<Rightarrow> real \<Rightarrow> nat list \<Rightarrow> 't renyi_locals \<Rightarrow> real list"
where
  "renyi_values nv theta eps [] l = []"
| "renyi_values nv theta eps (i # rest) l =
     (case disentangle_renyi_iter nv theta (l_U l) of
        Inl e \<Rightarrow> []
      | Inr (S, U) \<Rightarrow>
          S # (if converged eps (l_Sold l) S then []
               else renyi_values nv theta eps rest
                      (l\<lparr>l_i := Some i, l_S := Some (l_Sold l), l_Sold := Fin S, l_U := U\<rparr>)))"


text \<open>\<^verbatim>\<open>disentangle\<close> (lines 124 to 164).\<close>

definition disentangle ::
  "('t, 'w, 'g, 'psi, 'x) collab \<Rightarrow> ('psi, 'x) engine \<Rightarrow> 't \<Rightarrow> int \<Rightarrow> 't
     \<Rightarrow> error + ('t \<times> 't option)"
where
  "disentangle nv st theta i U_bond =
     (case get_parameter (p_disentangle (TEBD_params st)) None of
        None \<Rightarrow> Inr (theta, None)
      | Some d \<Rightarrow>
          if d = ''backwards'' then disentangle_backwards nv st theta U_bond
          else if d = ''renyi'' then disentangle_renyi nv st theta
          else Inl (ValueError (''Invalid 'disentangle': got '' @ repr d)))"

subsection \<open>The bond update\<close>

text \<open>
  \<^verbatim>\<open>update_bond\<close>, lines 87 to 90: the two-site wave function with the gate and the
  disentangler applied and its legs combined to a matrix, and the disentangler. The
  diagnostic line under \<^verbatim>\<open>verbose >= 100\<close> before it formats two integers and has no
  other effect.
\<close>

definition update_bond_theta ::
  "('t, 'w, 'g, 'psi, 'x) collab \<Rightarrow> ('psi, 'x) engine \<Rightarrow> int \<Rightarrow> 't
     \<Rightarrow> error + ('t \<times> 't option)"
where
  "update_bond_theta nv st i U_bond =
     (let i0 = i - 1 in
      and_then (lift (psi_get_theta nv (psi st) i0 2 1)) (\<lambda>theta0.
      and_then (lift (npc_tensordot nv U_bond theta0
                        ([Name ''p0*'', Name ''p1*''], [Name ''p0'', Name ''p1'']))) (\<lambda>theta1.
      and_then (disentangle nv st theta1 i U_bond) (\<lambda>(theta2, U_disent).
      and_then (lift (npc_combine_legs nv theta2
                        [[''vL'', ''p0'', ''q0''], [''vR'', ''p1'', ''q1'']] [1, -1] [])) (\<lambda>theta.
      Inr (theta, U_disent))))))"

text \<open>
  Lines 97 to 117, after the factorisation: the new right tensor \<^verbatim>\<open>B_R\<close> and the new
  left tensor \<^verbatim>\<open>B_L\<close>, formed from \<^verbatim>\<open>C\<close> and the conjugate of \<^verbatim>\<open>V\<close> and divided by
  \<^verbatim>\<open>renormalize\<close>.
\<close>

definition update_bond_B ::
  "('t, 'w, 'g, 'psi, 'x) collab \<Rightarrow> ('psi, 'x) engine \<Rightarrow> int \<Rightarrow> 't \<Rightarrow> 't \<Rightarrow> 't option
     \<Rightarrow> 't \<Rightarrow> real \<Rightarrow> error + ('t \<times> 't)"
where
  "update_bond_B nv st i U_bond theta U_disent V renormalize =
     (let i0 = i - 1 in
      and_then (lift (npc_split_legs nv V [1])) (\<lambda>Vs.
      and_then (lift (npc_ireplace_labels nv Vs [''p1'', ''q1''] [''p'', ''q''])) (\<lambda>B_R.
      and_then (lift (psi_get_theta nv (psi st) i0 2 0)) (\<lambda>C0.
      and_then (lift (npc_tensordot nv U_bond C0
                        ([Name ''p0*'', Name ''p1*''], [Name ''p0'', Name ''p1'']))) (\<lambda>C1.
      and_then (case U_disent of
                  None \<Rightarrow> Inr C1
                | Some Ud \<Rightarrow> lift (npc_tensordot nv Ud C1
                        ([Name ''q0*'', Name ''q1*''], [Name ''q0'', Name ''q1'']))) (\<lambda>C.
      and_then (lift (npc_legs nv theta 1)) (\<lambda>pipe.
      and_then (lift (npc_combine_legs nv C [[''vR'', ''p1'', ''q1'']] [] [pipe])) (\<lambda>Cc.
      and_then (lift (npc_conj nv V)) (\<lambda>Vc.
      and_then (lift (npc_tensordot nv Cc Vc
                        ([Name ''(vR.p1.q1)''], [Name ''(vR*.p1*.q1*)'']))) (\<lambda>B_L0.
      and_then (lift (npc_ireplace_labels nv B_L0 [''vL*'', ''p0'', ''q0'']
                        [''vR'', ''p'', ''q''])) (\<lambda>B_L1.
      and_then (lift (npc_idiv nv B_L1 renormalize)) (\<lambda>B_L.
      Inr (B_L, B_R)))))))))))))"

text \<open>
  Lines 83 to 117 bind local names only. The result is the tuple of the locals \<^verbatim>\<open>S\<close>,
  \<^verbatim>\<open>B_L\<close>, \<^verbatim>\<open>B_R\<close> and \<^verbatim>\<open>trunc_err\<close> as they stand after line 117.
\<close>

definition update_bond_locals ::
  "('t, 'w, 'g, 'psi, 'x) collab \<Rightarrow> ('psi, 'x) engine \<Rightarrow> int \<Rightarrow> 't
     \<Rightarrow> error + ('w \<times> 't \<times> 't \<times> real)"
where
  "update_bond_locals nv st i U_bond =
     and_then (update_bond_theta nv st i U_bond) (\<lambda>(theta, U_disent).
     and_then (lift (svd_theta nv theta (TEBD_params st) [''vR'', ''vL'']))
       (\<lambda>(U, S, V, trunc_err, renormalize).
     and_then (update_bond_B nv st i U_bond theta U_disent V renormalize) (\<lambda>(B_L, B_R).
     Inr (S, B_L, B_R, trunc_err))))"

text \<open>
  \<^verbatim>\<open>update_bond\<close> (lines 83 to 122). An exception leaves \<^verbatim>\<open>self\<close> as it is at
  that moment. Lines 118 to 121 are the only statements that write to \<^verbatim>\<open>self\<close>,
  one after the other and each of them able to raise: the three setters of the state, and
  the subscript of \<^verbatim>\<open>_trunc_err_bonds\<close>, which is read before it is assigned. The
  value returned is the local \<^verbatim>\<open>trunc_err\<close>.
\<close>

definition update_bond ::
  "('t, 'w, 'g, 'psi, 'x) collab \<Rightarrow> ('psi, 'x) engine \<Rightarrow> int \<Rightarrow> 't
     \<Rightarrow> (error + real) \<times> ('psi, 'x) engine"
where
  "update_bond nv st i U_bond =
     (let i0 = i - 1; i1 = i in
      case update_bond_locals nv st i U_bond of
        Inl e \<Rightarrow> (Inl e, st)
      | Inr (S, B_L, B_R, trunc_err) \<Rightarrow>
          (case psi_set_SR nv (psi st) i0 S of
             None \<Rightarrow> (Inl CollaboratorError, st)
           | Some p1 \<Rightarrow>
               let st1 = st\<lparr>psi := p1\<rparr> in
               (case psi_set_B nv (psi st1) i0 B_L ''B'' of
                  None \<Rightarrow> (Inl CollaboratorError, st1)
                | Some p2 \<Rightarrow>
                    let st2 = st1\<lparr>psi := p2\<rparr> in
                    (case psi_set_B nv (psi st2) i1 B_R ''B'' of
                       None \<Rightarrow> (Inl CollaboratorError, st2)
                     | Some p3 \<Rightarrow>
                         let st3 = st2\<lparr>psi := p3\<rparr> in
                         (case trunc_err_bonds st3 i of
                            None \<Rightarrow> (Inl LookupError, st3)
                          | Some t \<Rightarrow>
                              (Inr trunc_err,
                               st3\<lparr>trunc_err_bonds :=
                                     (trunc_err_bonds st3)(i \<mapsto> t + trunc_err)\<rparr>))))))"

text \<open>Engines reached from one another by successful bond updates, on any bonds and
  with any gates, and by nothing else (no reset of an accumulator in between). Every
  update is recorded with its bond and with the incremental truncation error of the call:
  the local \<^verbatim>\<open>trunc_err\<close> that the factorisation of line 93 produced.\<close>

inductive updates ::
  "('t, 'w, 'g, 'psi, 'x) collab \<Rightarrow> ('psi, 'x) engine \<Rightarrow> (int \<times> real) list
     \<Rightarrow> ('psi, 'x) engine \<Rightarrow> bool"
  for nv :: "('t, 'w, 'g, 'psi, 'x) collab"
where
  updates_none: "updates nv st [] st"
| updates_more:
    "updates nv st hist st' \<Longrightarrow> update_bond nv st' i U_bond = (Inr err, st'')
       \<Longrightarrow> update_bond_locals nv st' i U_bond = Inr (S, B_L, B_R, e)
       \<Longrightarrow> updates nv st (hist @ [(i, e)]) st''"

text \<open>The sum of the incremental errors that a history holds for a bond.\<close>

definition added :: "(int \<times> real) list \<Rightarrow> int \<Rightarrow> real" where
  "added hist b = sum_list (map snd (filter (\<lambda>p. fst p = b) hist))"

text \<open>The contract of the truncated factorisation on its error: a sum of squared
  discarded weights, hence never negative.\<close>

definition trunc_err_nonneg :: "('t, 'w, 'g, 'psi, 'x) collab \<Rightarrow> bool" where
  "trunc_err_nonneg nv =
     (\<forall>theta p ls U S V err r. svd_theta nv theta p ls = Some (U, S, V, err, r) \<longrightarrow> 0 \<le> err)"

subsection \<open>The imaginary time driver\<close>








section \<open>An instance: chains with legs of dimension one\<close>

text \<open>
  The smallest instance of the collaborators: every leg has dimension one, so that a
  tensor is its list of leg labels and its single entry, and a bond weight vector has one
  entry. A call fails on a label that is not there, on a wrong number of legs and on a
  site outside the chain. Nothing can be truncated, and the truncation error is zero.
\<close>

type_synonym tensor1 = "label list \<times> complex"

definition star :: "label \<Rightarrow> label" where
  "star l = (if l \<noteq> [] \<and> last l = CHR ''*'' then butlast l else l @ ''*'')"

fun split_dots :: "string \<Rightarrow> string list" where
  "split_dots [] = [[]]"
| "split_dots (c # cs) =
     (if c = CHR ''.'' then [] # split_dots cs
      else (case split_dots cs of [] \<Rightarrow> [[c]] | p # ps \<Rightarrow> (c # p) # ps))"

fun join_dots :: "string list \<Rightarrow> string" where
  "join_dots [] = []"
| "join_dots [l] = l"
| "join_dots (l # ls) = l @ ''.'' @ join_dots ls"

definition pipe_label :: "label list \<Rightarrow> label" where
  "pipe_label ls = ''('' @ join_dots ls @ '')''"

definition pipe_parts :: "label \<Rightarrow> label list option" where
  "pipe_parts l =
     (if 2 \<le> length l \<and> hd l = CHR ''('' \<and> last l = CHR '')''
      then Some (split_dots (butlast (tl l))) else None)"

definition conj_label :: "label \<Rightarrow> label" where
  "conj_label l = (case pipe_parts l of None \<Rightarrow> star l | Some ps \<Rightarrow> pipe_label (map star ps))"

fun index_of :: "'a \<Rightarrow> 'a list \<Rightarrow> nat option" where
  "index_of x [] = None"
| "index_of x (y # ys) = (if x = y then Some 0 else map_option Suc (index_of x ys))"

definition axis_pos :: "label list \<Rightarrow> axis \<Rightarrow> nat option" where
  "axis_pos ls a =
     (case a of Name l \<Rightarrow> index_of l ls
      | Pos n \<Rightarrow> if n < length ls then Some n else None)"

definition drop_at :: "nat list \<Rightarrow> 'a list \<Rightarrow> 'a list" where
  "drop_at ps xs = map snd (filter (\<lambda>(j, x). j \<notin> set ps) (enumerate 0 xs))"

definition t1_tensordot :: "tensor1 \<Rightarrow> tensor1 \<Rightarrow> axis list \<times> axis list \<Rightarrow> tensor1 option" where
  "t1_tensordot A B axes =
     (case (those (map (axis_pos (fst A)) (fst axes)), those (map (axis_pos (fst B)) (snd axes))) of
        (Some pa, Some pb) \<Rightarrow>
          if length pa = length pb \<and> distinct pa \<and> distinct pb
          then Some (drop_at pa (fst A) @ drop_at pb (fst B), snd A * snd B)
          else None
      | _ \<Rightarrow> None)"

definition t1_inner :: "tensor1 \<Rightarrow> tensor1 \<Rightarrow> axis list \<times> axis list \<Rightarrow> complex option" where
  "t1_inner A B axes =
     (case t1_tensordot A B axes of
        Some (ls, v) \<Rightarrow> if ls = [] then Some v else None
      | None \<Rightarrow> None)"

definition t1_outer :: "tensor1 \<Rightarrow> tensor1 \<Rightarrow> tensor1 option" where
  "t1_outer A B = Some (fst A @ fst B, snd A * snd B)"

definition t1_eye_like :: "tensor1 \<Rightarrow> label \<Rightarrow> tensor1 option" where
  "t1_eye_like A l = (if l \<in> set (fst A) then Some ([[], []], 1) else None)"

definition t1_svd :: "tensor1 \<Rightarrow> (tensor1 \<times> real list \<times> tensor1) option" where
  "t1_svd A =
     (case fst A of
        [a, b] \<Rightarrow> Some (([a, []], if snd A = 0 then 1 else snd A / of_real (cmod (snd A))),
                        [cmod (snd A)], ([[], b], 1))
      | _ \<Rightarrow> None)"

definition t1_conj :: "tensor1 \<Rightarrow> tensor1 option" where
  "t1_conj A = Some (map conj_label (fst A), cnj (snd A))"

definition combine1 :: "label list \<Rightarrow> label list \<Rightarrow> label list option" where
  "combine1 ls g =
     (if g \<noteq> [] \<and> distinct g \<and> set g \<subseteq> set ls
      then Some (map (\<lambda>l. if l = hd g then pipe_label g else l)
                   (filter (\<lambda>l. l \<notin> set (tl g)) ls))
      else None)"

fun combine_all :: "label list \<Rightarrow> label list list \<Rightarrow> label list option" where
  "combine_all ls [] = Some ls"
| "combine_all ls (g # gs) =
     (case combine1 ls g of None \<Rightarrow> None | Some ls' \<Rightarrow> combine_all ls' gs)"

definition t1_combine_legs ::
  "tensor1 \<Rightarrow> label list list \<Rightarrow> int list \<Rightarrow> label list \<Rightarrow> tensor1 option" where
  "t1_combine_legs A groups qconj pipes =
     (if pipes = [] \<or> pipes = map pipe_label groups
      then map_option (\<lambda>ls. (ls, snd A)) (combine_all (fst A) groups)
      else None)"

definition t1_split_legs :: "tensor1 \<Rightarrow> nat list \<Rightarrow> tensor1 option" where
  "t1_split_legs A ps =
     (if \<forall>p \<in> set ps. p < length (fst A) \<and> pipe_parts (fst A ! p) \<noteq> None
      then Some (concat (map (\<lambda>(j, l). if j \<in> set ps then the (pipe_parts l) else [l])
                           (enumerate 0 (fst A))), snd A)
      else None)"

definition t1_ireplace_labels :: "tensor1 \<Rightarrow> label list \<Rightarrow> label list \<Rightarrow> tensor1 option" where
  "t1_ireplace_labels A old new =
     (if length old = length new \<and> set old \<subseteq> set (fst A)
      then Some (map (\<lambda>l. case map_of (zip old new) l of None \<Rightarrow> l | Some n \<Rightarrow> n) (fst A), snd A)
      else None)"

definition t1_set_leg_labels :: "tensor1 \<Rightarrow> label list \<Rightarrow> tensor1 option" where
  "t1_set_leg_labels A ls = (if length ls = length (fst A) then Some (ls, snd A) else None)"

definition t1_legs :: "tensor1 \<Rightarrow> nat \<Rightarrow> label option" where
  "t1_legs A n = (if n < length (fst A) then Some (fst A ! n) else None)"

definition t1_idiv :: "tensor1 \<Rightarrow> real \<Rightarrow> tensor1 option" where
  "t1_idiv A r = (if r = 0 then None else Some (fst A, snd A / of_real r))"

definition t1_svd_theta ::
  "tensor1 \<Rightarrow> 'x params \<Rightarrow> label list
     \<Rightarrow> (tensor1 \<times> real list \<times> tensor1 \<times> real \<times> real) option" where
  "t1_svd_theta A p inner_labels =
     (case (fst A, inner_labels) of
        ([a, b], [il, ir]) \<Rightarrow>
          if snd A = 0 then None
          else Some (([a, il], snd A / of_real (cmod (snd A))), [1], ([ir, b], 1), 0, cmod (snd A))
      | _ \<Rightarrow> None)"

text \<open>A finite chain: the entries of the site tensors and of the bond weights, bond
  \<open>k\<close> lying to the left of site \<open>k\<close>.\<close>

record mps1 =
  site_B :: "complex list"
  bond_S :: "real list"

definition m1_get_theta :: "mps1 \<Rightarrow> int \<Rightarrow> nat \<Rightarrow> real \<Rightarrow> tensor1 option" where
  "m1_get_theta m i n formL =
     (if 0 \<le> i \<and> n = 2 \<and> nat i + 1 < length (site_B m) \<and> nat i < length (bond_S m)
      then Some ([''vL'', ''vR'', ''p0'', ''p1'', ''q0'', ''q1''],
                 of_real (if formL = 0 then 1 else bond_S m ! nat i)
                   * site_B m ! nat i * site_B m ! (nat i + 1))
      else None)"

text \<open>The setters assign to a slot of a list; outside the list they raise.\<close>

definition m1_set_SR :: "mps1 \<Rightarrow> int \<Rightarrow> real list \<Rightarrow> mps1 option" where
  "m1_set_SR m i S =
     (if 0 \<le> i \<and> nat i + 1 < length (bond_S m) \<and> S \<noteq> []
      then Some (m\<lparr>bond_S := (bond_S m)[nat i + 1 := hd S]\<rparr>) else None)"

definition m1_set_B :: "mps1 \<Rightarrow> int \<Rightarrow> tensor1 \<Rightarrow> string \<Rightarrow> mps1 option" where
  "m1_set_B m i B form =
     (if 0 \<le> i \<and> nat i < length (site_B m)
      then Some (m\<lparr>site_B := (site_B m)[nat i := snd B]\<rparr>) else None)"

definition npc1 :: "(tensor1, real list, label, mps1, unit) collab" where
  "npc1 =
     \<lparr>psi_get_theta = m1_get_theta, psi_set_SR = m1_set_SR, psi_set_B = m1_set_B,
      npc_tensordot = t1_tensordot, npc_inner = t1_inner, npc_outer = t1_outer,
      npc_eye_like = t1_eye_like, npc_svd = t1_svd, npc_conj = t1_conj,
      npc_combine_legs = t1_combine_legs, npc_split_legs = t1_split_legs,
      npc_ireplace_labels = t1_ireplace_labels, npc_set_leg_labels = t1_set_leg_labels,
      npc_legs = t1_legs, npc_idiv = t1_idiv, svd_theta = t1_svd_theta\<rparr>"

text \<open>The same collaborators with a factorisation that reports a given truncation
  error: the error is the factorisation's to compute.\<close>

definition npc1_lossy :: "real \<Rightarrow> (tensor1, real list, label, mps1, unit) collab" where
  "npc1_lossy e =
     npc1\<lparr>svd_theta :=
            (\<lambda>A p ls. map_option (\<lambda>(U, S, V, err, r). (U, S, V, e, r)) (t1_svd_theta A p ls))\<rparr>"

text \<open>A chain of three sites, its default configuration, and a gate on two sites.\<close>

definition params1 :: "unit params" where
  "params1 = \<lparr>p_dt = None, p_order = None, p_disentangle = None, p_disent_eps = None,
              p_disent_max_iter = None, p_trunc = ()\<rparr>"

definition engine1 :: "(mps1, unit) engine" where
  "engine1 =
     \<lparr>psi = \<lparr>site_B = [2, 1, 1], bond_S = [1, 1, 1, 1]\<rparr>,
      trunc_err_bonds = [0 \<mapsto> 0, 1 \<mapsto> 1 / 4, 2 \<mapsto> 0, 3 \<mapsto> 0],
      TEBD_params = params1, verbose = 0, U_param_type_evo = Some ''real''\<rparr>"

definition gate1 :: tensor1 where
  "gate1 = ([''p0'', ''p1'', ''p0*'', ''p1*''], 2)"



section \<open>An instance: dense tensors\<close>

text \<open>Modelled from the spec: the Tensor-Algebra collaborator's tensors. A leg has a
  label and a dimension; a leg made by combining legs (a pipe) remembers the labels and
  dimensions of the legs it combines. A tensor is its legs, in order, and its entries, read
  at the list of the indices of its legs.\<close>

datatype leg = Leg (leg_label: label) (leg_dim: nat) (leg_subs: "(label \<times> nat) list")

record tensor =
  t_legs :: "leg list"
  t_dat :: "nat list \<Rightarrow> complex"

definition leg_labels :: "tensor \<Rightarrow> label list" where
  "leg_labels T = map leg_label (t_legs T)"

definition leg_dims :: "tensor \<Rightarrow> nat list" where
  "leg_dims T = map leg_dim (t_legs T)"

text \<open>The sum over all index tuples below the given dimensions.\<close>

fun sum_over :: "nat list \<Rightarrow> (nat list \<Rightarrow> complex) \<Rightarrow> complex" where
  "sum_over [] f = f []"
| "sum_over (d # ds) f = (\<Sum>k<d. sum_over ds (\<lambda>ks. f (k # ks)))"

text \<open>The index list of a tensor from the indices \<open>ks\<close> of its contracted legs (the
  legs at the positions \<open>ps\<close>, in the order of \<open>ps\<close>) and the indices \<open>fr\<close> of its other
  legs (in the order of the legs).\<close>

fun place :: "'a list \<Rightarrow> nat \<Rightarrow> nat list \<Rightarrow> nat list \<Rightarrow> nat list \<Rightarrow> nat list" where
  "place [] j ps ks fr = []"
| "place (l # ls) j ps ks fr =
     (case index_of j ps of
        Some m \<Rightarrow> ks ! m # place ls (Suc j) ps ks fr
      | None \<Rightarrow> hd fr # place ls (Suc j) ps ks (tl fr))"

text \<open>The index of a pipe enumerates the index tuples of the legs it combines, the last
  leg running fastest.\<close>

fun decode :: "nat list \<Rightarrow> nat \<Rightarrow> nat list" where
  "decode [] a = []"
| "decode (d # ds) a = a div prod_list ds # decode ds (a mod prod_list ds)"

fun encode :: "nat list \<Rightarrow> nat list \<Rightarrow> nat" where
  "encode (d # ds) (i # is) = i * prod_list ds + encode ds is"
| "encode ds is = 0"

text \<open>Modelled from the spec: named-leg contraction. The axes of both tensors are
  found by label or position; they must be as many on both sides, distinct and of equal
  dimensions. The result has the remaining legs of the first tensor, then those of the
  second, and the entries are summed over the contracted indices. A result with two legs
  of one label is not modelled.\<close>

definition d_tensordot :: "tensor \<Rightarrow> tensor \<Rightarrow> axis list \<times> axis list \<Rightarrow> tensor option" where
  "d_tensordot A B axes =
     (case (those (map (axis_pos (leg_labels A)) (fst axes)),
            those (map (axis_pos (leg_labels B)) (snd axes))) of
        (Some pa, Some pb) \<Rightarrow>
          if length pa = length pb \<and> distinct pa \<and> distinct pb
             \<and> map (\<lambda>p. leg_dims A ! p) pa = map (\<lambda>p. leg_dims B ! p) pb
             \<and> distinct (map leg_label (drop_at pa (t_legs A) @ drop_at pb (t_legs B)))
          then Some \<lparr>t_legs = drop_at pa (t_legs A) @ drop_at pb (t_legs B),
                     t_dat = (\<lambda>ix. sum_over (map (\<lambda>p. leg_dims A ! p) pa) (\<lambda>ks.
                        t_dat A (place (t_legs A) 0 pa ks
                                   (take (length (t_legs A) - length pa) ix))
                        * t_dat B (place (t_legs B) 0 pb ks
                                   (drop (length (t_legs A) - length pa) ix))))\<rparr>
          else None
      | _ \<Rightarrow> None)"

text \<open>Modelled from the spec: the scalar inner product (a contraction of all legs, without
  conjugation), the outer product (a contraction of no leg) and the identity tensor over
  a leg.\<close>

definition d_inner :: "tensor \<Rightarrow> tensor \<Rightarrow> axis list \<times> axis list \<Rightarrow> complex option" where
  "d_inner A B axes =
     (case d_tensordot A B axes of
        None \<Rightarrow> None
      | Some T \<Rightarrow> if t_legs T = [] then Some (t_dat T []) else None)"

definition d_outer :: "tensor \<Rightarrow> tensor \<Rightarrow> tensor option" where
  "d_outer A B = d_tensordot A B ([], [])"

definition d_eye_like :: "tensor \<Rightarrow> label \<Rightarrow> tensor option" where
  "d_eye_like A l =
     (case index_of l (leg_labels A) of
        None \<Rightarrow> None
      | Some p \<Rightarrow> Some \<lparr>t_legs = [Leg [] (leg_dims A ! p) [], Leg [] (leg_dims A ! p) []],
                        t_dat = (\<lambda>ix. if ix ! 0 = ix ! 1 then 1 else 0)\<rparr>)"

text \<open>Modelled from the spec: conjugation. The entries are conjugated and every label
  exchanges its star.\<close>

definition conj_leg :: "leg \<Rightarrow> leg" where
  "conj_leg L = Leg (conj_label (leg_label L)) (leg_dim L)
                    (map (\<lambda>(l, d). (star l, d)) (leg_subs L))"

definition d_conj :: "tensor \<Rightarrow> tensor option" where
  "d_conj A = Some \<lparr>t_legs = map conj_leg (t_legs A), t_dat = (\<lambda>ix. cnj (t_dat A ix))\<rparr>"

text \<open>Modelled from the spec: leg combine. The legs of a group become one pipe, which
  stands where the first leg of the group stood; the other legs keep their order. A pipe
  given by the caller (a leg basis computed before) must combine legs of the same
  dimensions. The orientations \<^verbatim>\<open>qconj\<close> concern charges only and are not
  modelled.\<close>

definition remove_nth :: "nat \<Rightarrow> 'a list \<Rightarrow> 'a list" where
  "remove_nth q xs = take q xs @ drop (Suc q) xs"

definition d_combine1 :: "tensor \<Rightarrow> label list \<Rightarrow> leg option \<Rightarrow> tensor option" where
  "d_combine1 T g pipe =
     (case those (map (\<lambda>l. index_of l (leg_labels T)) g) of
        None \<Rightarrow> None
      | Some ps \<Rightarrow>
          if ps = [] \<or> \<not> distinct ps then None
          else
            let subs = map (\<lambda>p. (leg_labels T ! p, leg_dims T ! p)) ps;
                dims = map snd subs;
                q = length (filter (\<lambda>j. j \<notin> set (tl ps)) [0 ..< hd ps])
            in if (case pipe of None \<Rightarrow> True | Some P \<Rightarrow> map snd (leg_subs P) = dims)
               then Some
                 \<lparr>t_legs = map (\<lambda>(j, L). if j = hd ps then Leg (pipe_label g) (prod_list dims) subs
                                          else L)
                             (filter (\<lambda>(j, L). j \<notin> set (tl ps)) (enumerate 0 (t_legs T))),
                  t_dat = (\<lambda>ix. t_dat T (place (t_legs T) 0 ps (decode dims (ix ! q))
                                             (remove_nth q ix)))\<rparr>
               else None)"

fun combine_groups :: "tensor \<Rightarrow> label list list \<Rightarrow> leg option list \<Rightarrow> tensor option" where
  "combine_groups T [] ps = Some T"
| "combine_groups T (g # gs) ps =
     (case d_combine1 T g (case ps of [] \<Rightarrow> None | p # _ \<Rightarrow> p) of
        None \<Rightarrow> None
      | Some T' \<Rightarrow> combine_groups T' gs (tl ps))"

definition d_combine_legs ::
  "tensor \<Rightarrow> label list list \<Rightarrow> int list \<Rightarrow> leg list \<Rightarrow> tensor option" where
  "d_combine_legs T groups qconj pipes =
     (if pipes = [] \<or> length pipes = length groups
      then combine_groups T groups (map Some pipes) else None)"

text \<open>Modelled from the spec: leg split, the inverse of combining. Only a pipe can be
  split; several legs are split from the last to the first.\<close>

definition d_split1 :: "tensor \<Rightarrow> nat \<Rightarrow> tensor option" where
  "d_split1 T p =
     (if p < length (t_legs T) \<and> leg_subs (t_legs T ! p) \<noteq> []
      then
        let subs = leg_subs (t_legs T ! p); k = length subs
        in Some \<lparr>t_legs = take p (t_legs T) @ map (\<lambda>(l, d). Leg l d []) subs
                            @ drop (Suc p) (t_legs T),
                 t_dat = (\<lambda>ix. t_dat T (take p ix @ [encode (map snd subs) (take k (drop p ix))]
                                          @ drop (p + k) ix))\<rparr>
      else None)"

fun split_all :: "tensor \<Rightarrow> nat list \<Rightarrow> tensor option" where
  "split_all T [] = Some T"
| "split_all T (p # ps) =
     (case d_split1 T p of None \<Rightarrow> None | Some T' \<Rightarrow> split_all T' ps)"

definition d_split_legs :: "tensor \<Rightarrow> nat list \<Rightarrow> tensor option" where
  "d_split_legs T ps = split_all T (rev (sort ps))"

text \<open>Modelled from the spec: relabelling, the legs of a tensor, and the division of all
  entries by a scalar (by zero it gives no number and is not modelled).\<close>

definition relabel :: "(label \<Rightarrow> label) \<Rightarrow> leg \<Rightarrow> leg" where
  "relabel r L = Leg (r (leg_label L)) (leg_dim L) (leg_subs L)"

definition d_ireplace_labels :: "tensor \<Rightarrow> label list \<Rightarrow> label list \<Rightarrow> tensor option" where
  "d_ireplace_labels A old new =
     (if length old = length new \<and> set old \<subseteq> set (leg_labels A)
      then Some (A\<lparr>t_legs := map (relabel (\<lambda>l. case map_of (zip old new) l of
                                                None \<Rightarrow> l | Some n \<Rightarrow> n)) (t_legs A)\<rparr>)
      else None)"

definition d_set_leg_labels :: "tensor \<Rightarrow> label list \<Rightarrow> tensor option" where
  "d_set_leg_labels A ls =
     (if length ls = length (t_legs A)
      then Some (A\<lparr>t_legs := map (\<lambda>(l, L). relabel (\<lambda>_. l) L) (zip ls (t_legs A))\<rparr>)
      else None)"

definition d_legs :: "tensor \<Rightarrow> nat \<Rightarrow> leg option" where
  "d_legs A n = (if n < length (t_legs A) then Some (t_legs A ! n) else None)"

definition d_idiv :: "tensor \<Rightarrow> real \<Rightarrow> tensor option" where
  "d_idiv A r = (if r = 0 then None else Some (A\<lparr>t_dat := (\<lambda>ix. t_dat A ix / of_real r)\<rparr>))"

text \<open>Modelled from the spec: the State collaborator. A chain holds its site tensors
  (legs \<^verbatim>\<open>vL\<close>, \<^verbatim>\<open>vR\<close>, \<^verbatim>\<open>p\<close>, \<^verbatim>\<open>q\<close>, in right-canonical form) and its bond weights,
  bond \<open>k\<close> lying to the left of site \<open>k\<close>. The two-site wave function is the product of
  two neighbouring site tensors over their common bond, with the weights of the left
  bond folded in (\<^verbatim>\<open>formL = 1\<close>) or not (\<^verbatim>\<open>formL = 0\<close>).\<close>

record dmps =
  d_sites :: "tensor list"
  d_weights :: "real list list"

definition site_ok :: "tensor \<Rightarrow> bool" where
  "site_ok B \<longleftrightarrow> leg_labels B = [''vL'', ''vR'', ''p'', ''q'']"

definition d_get_theta :: "dmps \<Rightarrow> int \<Rightarrow> nat \<Rightarrow> real \<Rightarrow> tensor option" where
  "d_get_theta m i n formL =
     (if 0 \<le> i \<and> n = 2 \<and> nat i + 1 < length (d_sites m) \<and> nat i < length (d_weights m)
      then
        let B0 = d_sites m ! nat i; B1 = d_sites m ! (nat i + 1); SL = d_weights m ! nat i
        in if site_ok B0 \<and> site_ok B1 \<and> leg_dims B0 ! 1 = leg_dims B1 ! 0
              \<and> length SL = leg_dims B0 ! 0 \<and> (formL = 0 \<or> formL = 1)
           then Some
             \<lparr>t_legs = [Leg ''vL'' (leg_dims B0 ! 0) [], Leg ''vR'' (leg_dims B1 ! 1) [],
                        Leg ''p0'' (leg_dims B0 ! 2) [], Leg ''p1'' (leg_dims B1 ! 2) [],
                        Leg ''q0'' (leg_dims B0 ! 3) [], Leg ''q1'' (leg_dims B1 ! 3) []],
              t_dat = (\<lambda>ix. of_real (if formL = 0 then 1 else SL ! (ix ! 0)) *
                         (\<Sum>m<leg_dims B0 ! 1. t_dat B0 [ix ! 0, m, ix ! 2, ix ! 4]
                                                   * t_dat B1 [m, ix ! 1, ix ! 3, ix ! 5]))\<rparr>
           else None
      else None)"

definition d_set_SR :: "dmps \<Rightarrow> int \<Rightarrow> real list \<Rightarrow> dmps option" where
  "d_set_SR m i S =
     (if 0 \<le> i \<and> nat i + 1 < length (d_weights m)
      then Some (m\<lparr>d_weights := (d_weights m)[nat i + 1 := S]\<rparr>) else None)"

definition d_set_B :: "dmps \<Rightarrow> int \<Rightarrow> tensor \<Rightarrow> string \<Rightarrow> dmps option" where
  "d_set_B m i B form =
     (if 0 \<le> i \<and> nat i < length (d_sites m)
      then Some (m\<lparr>d_sites := (d_sites m)[nat i := B]\<rparr>) else None)"

text \<open>The collaborators over dense tensors. The two factorisations are not computed here;
  they remain parameters.\<close>

definition dense_npc ::
  "(tensor \<Rightarrow> 'x params \<Rightarrow> label list \<Rightarrow> (tensor \<times> real list \<times> tensor \<times> real \<times> real) option)
   \<Rightarrow> (tensor \<Rightarrow> (tensor \<times> real list \<times> tensor) option)
   \<Rightarrow> (tensor, real list, leg, dmps, 'x) collab" where
  "dense_npc f g =
     \<lparr>psi_get_theta = d_get_theta, psi_set_SR = d_set_SR, psi_set_B = d_set_B,
      npc_tensordot = d_tensordot, npc_inner = d_inner, npc_outer = d_outer,
      npc_eye_like = d_eye_like, npc_svd = g, npc_conj = d_conj,
      npc_combine_legs = d_combine_legs, npc_split_legs = d_split_legs,
      npc_ireplace_labels = d_ireplace_labels, npc_set_leg_labels = d_set_leg_labels,
      npc_legs = d_legs, npc_idiv = d_idiv, svd_theta = f\<rparr>"

text \<open>Two tensors are the same when they have the same legs, in whatever order, and the
  same entry at every assignment of indices to the labels.\<close>

definition entry :: "tensor \<Rightarrow> (label \<Rightarrow> nat) \<Rightarrow> complex" where
  "entry T f = t_dat T (map (\<lambda>L. f (leg_label L)) (t_legs T))"

definition same_tensor :: "tensor \<Rightarrow> tensor \<Rightarrow> bool" where
  "same_tensor A B \<longleftrightarrow>
     distinct (leg_labels A) \<and> distinct (leg_labels B) \<and> set (t_legs A) = set (t_legs B) \<and>
     (\<forall>f. (\<forall>L \<in> set (t_legs A). f (leg_label L) < leg_dim L) \<longrightarrow> entry A f = entry B f)"

text \<open>The wave function of an auxiliary sector maximally entangled with the physical one,
  \<open>c(vL, vR) \<delta>(p0, q0) \<delta>(p1, q1)\<close>; a gate with the legs \<^verbatim>\<open>p0\<close>, \<^verbatim>\<open>p1\<close>, \<^verbatim>\<open>p0*\<close>,
  \<^verbatim>\<open>p1*\<close> that \<^verbatim>\<open>update_bond\<close> expects; and what it is for the gate to be unitary, as a
  matrix from the starred to the plain legs.\<close>

definition max_entangled :: "nat \<Rightarrow> nat \<Rightarrow> nat \<Rightarrow> nat \<Rightarrow> (nat \<Rightarrow> nat \<Rightarrow> complex) \<Rightarrow> tensor" where
  "max_entangled chiL chiR d0 d1 c =
     \<lparr>t_legs = [Leg ''vL'' chiL [], Leg ''vR'' chiR [], Leg ''p0'' d0 [], Leg ''p1'' d1 [],
                Leg ''q0'' d0 [], Leg ''q1'' d1 []],
      t_dat = (\<lambda>ix. c (ix ! 0) (ix ! 1) * (if ix ! 2 = ix ! 4 \<and> ix ! 3 = ix ! 5 then 1 else 0))\<rparr>"

definition gate :: "nat \<Rightarrow> nat \<Rightarrow> (nat list \<Rightarrow> complex) \<Rightarrow> tensor" where
  "gate d0 d1 u =
     \<lparr>t_legs = [Leg ''p0'' d0 [], Leg ''p1'' d1 [], Leg ''p0*'' d0 [], Leg ''p1*'' d1 []],
      t_dat = u\<rparr>"

definition unitary_gate :: "nat \<Rightarrow> nat \<Rightarrow> (nat list \<Rightarrow> complex) \<Rightarrow> bool" where
  "unitary_gate d0 d1 u \<longleftrightarrow>
     (\<forall>a b a' b'. a < d0 \<and> b < d1 \<and> a' < d0 \<and> b' < d1 \<longrightarrow>
        (\<Sum>x<d0. \<Sum>y<d1. u [a, b, x, y] * cnj (u [a', b', x, y]))
          = (if a = a' \<and> b = b' then 1 else 0)) \<and>
     (\<forall>x y x' y'. x < d0 \<and> y < d1 \<and> x' < d0 \<and> y' < d1 \<longrightarrow>
        (\<Sum>a<d0. \<Sum>b<d1. cnj (u [a, b, x, y]) * u [a, b, x', y'])
          = (if x = x' \<and> y = y' then 1 else 0))"

text \<open>An instance: the gate that flips a two-level site next to a one-level site, an
  engine in real-time evolution, and the dense collaborators without factorisations.\<close>

definition flip_gate :: "nat list \<Rightarrow> complex" where
  "flip_gate ix = (if ix ! 0 = ix ! 2 then 0 else 1)"

definition dense_engine :: "(dmps, unit) engine" where
  "dense_engine =
     \<lparr>psi = \<lparr>d_sites = [], d_weights = []\<rparr>, trunc_err_bonds = Map.empty,
      TEBD_params = params1\<lparr>p_disentangle := Some (Some ''backwards'')\<rparr>,
      verbose = 0, U_param_type_evo = Some ''real''\<rparr>"

definition dense0 :: "(tensor, real list, leg, dmps, unit) collab" where
  "dense0 = dense_npc (\<lambda>t p ls. None) (\<lambda>t. None)"

subsection \<open>The naive recipe and an exact factorisation\<close>

text \<open>Modelled from the spec: one tensor is another with the entries along the leg at
  position \<open>p\<close> multiplied by weights, as the wave function with the old bond weights
  folded in on the left is to the one without.\<close>

definition scaled_at :: "nat \<Rightarrow> (nat \<Rightarrow> complex) \<Rightarrow> tensor \<Rightarrow> tensor \<Rightarrow> bool" where
  "scaled_at p s T T' \<longleftrightarrow>
     t_legs T = t_legs T' \<and>
     (\<forall>ix. length ix = length (t_legs T) \<longrightarrow> t_dat T ix = s (ix ! p) * t_dat T' ix)"

text \<open>The legs of the two-site wave function as the state hands it out (the comment of
  line 87).\<close>

definition theta_legs :: "nat \<Rightarrow> nat \<Rightarrow> nat \<Rightarrow> nat \<Rightarrow> nat \<Rightarrow> nat \<Rightarrow> leg list" where
  "theta_legs cL cR d0 d1 e0 e1 =
     [Leg ''vL'' cL [], Leg ''vR'' cR [], Leg ''p0'' d0 [], Leg ''p1'' d1 [],
      Leg ''q0'' e0 [], Leg ''q1'' e1 []]"

text \<open>Modelled from the spec: \<^verbatim>\<open>iscale_axis\<close>, the entries along a labelled leg
  multiplied by the entries of a vector of that length.\<close>

definition d_iscale_axis :: "tensor \<Rightarrow> real list \<Rightarrow> label \<Rightarrow> tensor option" where
  "d_iscale_axis T s l =
     (case index_of l (leg_labels T) of
        None \<Rightarrow> None
      | Some p \<Rightarrow>
          if length s = leg_dims T ! p
          then Some (T\<lparr>t_dat := (\<lambda>ix. t_dat T ix * of_real (s ! (ix ! p)))\<rparr>)
          else None)"

text \<open>Modelled from the spec: the naive recipe for the left tensor, \<^verbatim>\<open>SL**(-1) U S\<close>,
  as the comment of lines 98 to 102 words it: scale the new leg of \<^verbatim>\<open>U\<close> by the new
  weights, split the left pipe, scale the leg \<^verbatim>\<open>vL\<close> by the inverses of the old
  weights, rename \<^verbatim>\<open>p0\<close> and \<^verbatim>\<open>q0\<close>.\<close>

definition naive_B_L :: "real list \<Rightarrow> tensor \<Rightarrow> real list \<Rightarrow> tensor option" where
  "naive_B_L SL U S =
     Option.bind (d_iscale_axis U S ''vR'') (\<lambda>B1.
     Option.bind (d_split_legs B1 [0]) (\<lambda>B2.
     Option.bind (d_iscale_axis B2 (map inverse SL) ''vL'') (\<lambda>B3.
     d_ireplace_labels B3 [''p0'', ''q0''] [''p'', ''q''])))"

text \<open>Modelled from the spec: the factorisation has lost nothing of the matrix it was
  given. The kept part reproduces it, \<open>theta = r U S V\<close> with \<open>r\<close> the renormalisation
  scalar, and the kept rows of \<open>V\<close> are orthonormal; so the kept right singular
  vectors span the rows of \<open>theta\<close>, and with them those of \<^verbatim>\<open>C\<close>.\<close>

definition exact_factorisation ::
  "tensor \<Rightarrow> tensor \<Rightarrow> real list \<Rightarrow> tensor \<Rightarrow> real \<Rightarrow> bool" where
  "exact_factorisation theta U S V r \<longleftrightarrow>
     (\<exists>L R chi.
        t_legs theta = [L, R] \<and> t_legs U = [L, Leg ''vR'' chi []] \<and>
        t_legs V = [Leg ''vL'' chi [], R] \<and> length S = chi \<and> r \<noteq> 0 \<and>
        (\<forall>a<leg_dim L. \<forall>b<leg_dim R.
           t_dat theta [a, b]
             = of_real r * (\<Sum>k<chi. t_dat U [a, k] * of_real (S ! k) * t_dat V [k, b])) \<and>
        (\<forall>k<chi. \<forall>k'<chi.
           (\<Sum>b<leg_dim R. t_dat V [k, b] * cnj (t_dat V [k', b])) = (if k = k' then 1 else 0)))"

text \<open>The legs of a disentangler: the four plain legs \<^verbatim>\<open>q0\<close>, \<^verbatim>\<open>q1\<close>, \<^verbatim>\<open>q0*\<close>,
  \<^verbatim>\<open>q1*\<close> in the order in which \<^verbatim>\<open>disentangle_backwards\<close> (line 182), the iteration
  (line 271) or the identity of lines 204 and 205 leave them.\<close>

definition disentangler_legs :: "tensor \<Rightarrow> bool" where
  "disentangler_legs Ud \<longleftrightarrow>
     leg_labels Ud \<in> set [[''q0'', ''q1'', ''q0*'', ''q1*''], [''q0*'', ''q1*'', ''q0'', ''q1''],
                          [''q0'', ''q0*'', ''q1'', ''q1*'']] \<and>
     list_all (\<lambda>L. leg_subs L = []) (t_legs Ud)"

text \<open>Modelled from the spec: an instance of the truncated factorisation, for a matrix
  with one column. The only singular value is the norm of the column; it is returned as
  the renormalisation scalar, the kept weight is one and nothing is discarded.\<close>

definition column_svd ::
  "tensor \<Rightarrow> 'x params \<Rightarrow> label list \<Rightarrow> (tensor \<times> real list \<times> tensor \<times> real \<times> real) option"
where
  "column_svd theta p ls =
     (case t_legs theta of
        [L, R] \<Rightarrow>
          let r = sqrt (\<Sum>a<leg_dim L. (cmod (t_dat theta [a, 0])) ^ 2)
          in if leg_dim R = 1 \<and> r \<noteq> 0 \<and> length ls = 2
             then Some (\<lparr>t_legs = [L, Leg (ls ! 0) 1 []],
                          t_dat = (\<lambda>ix. t_dat theta [ix ! 0, 0] / of_real r)\<rparr>,
                        [1],
                        \<lparr>t_legs = [Leg (ls ! 1) 1 [], R], t_dat = (\<lambda>ix. 1)\<rparr>,
                        0, r)
             else None
      | _ \<Rightarrow> None)"

text \<open>An instance: two sites, the left one with a left bond of dimension two and old
  weights \<open>3/5\<close> and \<open>4/5\<close>, in real-time evolution with the backwards
  disentangler.\<close>

definition dense_engine2 :: "(dmps, unit) engine" where
  "dense_engine2 =
     \<lparr>psi = \<lparr>d_sites =
               [\<lparr>t_legs = [Leg ''vL'' 2 [], Leg ''vR'' 1 [], Leg ''p'' 1 [], Leg ''q'' 1 []],
                 t_dat = (\<lambda>ix. 1)\<rparr>,
                \<lparr>t_legs = [Leg ''vL'' 1 [], Leg ''vR'' 1 [], Leg ''p'' 1 [], Leg ''q'' 1 []],
                 t_dat = (\<lambda>ix. 1)\<rparr>],
             d_weights = [[3 / 5, 4 / 5], [1]]\<rparr>,
      trunc_err_bonds = [1 \<mapsto> 0],
      TEBD_params = params1\<lparr>p_disentangle := Some (Some ''backwards'')\<rparr>,
      verbose = 0, U_param_type_evo = Some ''real''\<rparr>"

definition dense1 :: "(tensor, real list, leg, dmps, unit) collab" where
  "dense1 = dense_npc column_svd (\<lambda>t. None)"

subsection \<open>The second Renyi entropy and an exact singular value decomposition\<close>

text \<open>A wave function \<open>m\<close> between a left index set \<open>I\<close> and a right index set \<open>J\<close>: the
  matrix \<open>m m\<^sup>\<dagger>\<close> (for two wave functions, \<open>a m\<^sup>\<dagger>\<close>), the trace of
  \<open>a m\<^sup>\<dagger> m m\<^sup>\<dagger>\<close>, which is linear in \<open>a\<close>, and the purity
  \<open>tr (m m\<^sup>\<dagger>)\<^sup>2\<close>, of which the second Renyi entropy is minus the logarithm.\<close>

definition gram :: "'j set \<Rightarrow> ('i \<Rightarrow> 'j \<Rightarrow> complex) \<Rightarrow> ('k \<Rightarrow> 'j \<Rightarrow> complex) \<Rightarrow> 'i \<Rightarrow> 'k \<Rightarrow> complex"
where
  "gram J a m L' L = (\<Sum>R\<in>J. a L' R * cnj (m L R))"


definition purity :: "'i set \<Rightarrow> 'j set \<Rightarrow> ('i \<Rightarrow> 'j \<Rightarrow> complex) \<Rightarrow> real" where
  "purity I J m = (\<Sum>L\<in>I. \<Sum>L'\<in>I. (cmod (gram J m m L L'))\<^sup>2)"









section \<open>Properties\<close>

subsection \<open>Helper facts\<close>

lemma and_then_Inr: "and_then m k = Inr v \<longleftrightarrow> (\<exists>x. m = Inr x \<and> k x = Inr v)"
  by (cases m) (auto simp: and_then_def)

lemma update_bond_Inr:
  "update_bond nv st i U_bond = (Inr err, st') \<longleftrightarrow>
     (\<exists>S B_L B_R p1 p2 p3 t.
        update_bond_locals nv st i U_bond = Inr (S, B_L, B_R, err) \<and>
        psi_set_SR nv (psi st) (i - 1) S = Some p1 \<and>
        psi_set_B nv p1 (i - 1) B_L ''B'' = Some p2 \<and>
        psi_set_B nv p2 i B_R ''B'' = Some p3 \<and>
        trunc_err_bonds st i = Some t \<and>
        st' = st\<lparr>psi := p3, trunc_err_bonds := (trunc_err_bonds st)(i \<mapsto> t + err)\<rparr>)"
  by (auto simp: update_bond_def Let_def split: sum.splits prod.splits option.splits)

lemma update_bond_Inl:
  "update_bond nv st i U_bond = (Inl e, st') \<longleftrightarrow>
     (update_bond_locals nv st i U_bond = Inl e \<and> st' = st) \<or>
     (\<exists>S B_L B_R err. update_bond_locals nv st i U_bond = Inr (S, B_L, B_R, err) \<and>
        (psi_set_SR nv (psi st) (i - 1) S = None \<and> e = CollaboratorError \<and> st' = st \<or>
         (\<exists>p1. psi_set_SR nv (psi st) (i - 1) S = Some p1 \<and>
            (psi_set_B nv p1 (i - 1) B_L ''B'' = None \<and> e = CollaboratorError \<and>
               st' = st\<lparr>psi := p1\<rparr> \<or>
             (\<exists>p2. psi_set_B nv p1 (i - 1) B_L ''B'' = Some p2 \<and>
                (psi_set_B nv p2 i B_R ''B'' = None \<and> e = CollaboratorError \<and>
                   st' = st\<lparr>psi := p2\<rparr> \<or>
                 (\<exists>p3. psi_set_B nv p2 i B_R ''B'' = Some p3 \<and>
                    trunc_err_bonds st i = None \<and> e = LookupError \<and>
                    st' = st\<lparr>psi := p3\<rparr>)))))))"
  by (auto simp: update_bond_def Let_def split: sum.splits prod.splits option.splits)

text \<open>The equations that evaluate a bond update on a chain with legs of dimension one.\<close>

lemmas npc1_eval =
  update_bond_def update_bond_locals_def update_bond_theta_def update_bond_B_def
  npc1_def engine1_def params1_def gate1_def disentangle_def get_parameter_def
  m1_get_theta_def lift_def and_then_def t1_tensordot_def axis_pos_def drop_at_def
  t1_combine_legs_def combine1_def pipe_label_def t1_svd_theta_def t1_split_legs_def
  pipe_parts_def t1_ireplace_labels_def t1_legs_def t1_conj_def conj_label_def star_def
  t1_idiv_def m1_set_SR_def m1_set_B_def Let_def npc1_lossy_def

lemma update_bond_locals_err:
  "update_bond_locals nv st i U_bond = Inr (S, B_L, B_R, err) \<Longrightarrow>
     \<exists>theta U_disent U V renormalize.
        update_bond_theta nv st i U_bond = Inr (theta, U_disent) \<and>
        svd_theta nv theta (TEBD_params st) [''vR'', ''vL''] = Some (U, S, V, err, renormalize)"
  by (auto simp: update_bond_locals_def and_then_Inr lift_def split: option.splits)

lemma added_append: "added (hist @ [(i, e)]) b = added hist b + (if i = b then e else 0)"
  by (simp add: added_def)

lemma updates_acc:
  "updates nv st hist st' \<Longrightarrow> trunc_err_nonneg nv \<Longrightarrow>
     (\<forall>p \<in> set hist. 0 \<le> snd p) \<and>
     (\<forall>b t. trunc_err_bonds st b = Some t \<longrightarrow> trunc_err_bonds st' b = Some (t + added hist b))"
proof (induction rule: updates.induct)
  case (updates_none st)
  show ?case by (simp add: added_def)
next
  case (updates_more st hist st' i U_bond err st'' S B_L B_R e)
  from updates_more.hyps(2,3) have ee: "e = err"
    by (auto simp: update_bond_Inr)
  from update_bond_locals_err [OF updates_more.hyps(3)] updates_more.prems have e: "0 \<le> e"
    unfolding trunc_err_nonneg_def by blast
  from updates_more.hyps(2) obtain t' where
    t': "trunc_err_bonds st' i = Some t'"
    and a: "trunc_err_bonds st'' = (trunc_err_bonds st')(i \<mapsto> t' + err)"
    by (auto simp: update_bond_Inr)
  from updates_more.IH [OF updates_more.prems] e t' a ee show ?case
    by (auto simp: added_append)
qed

lemma added_nonneg: "\<forall>p \<in> set hist. 0 \<le> snd p \<Longrightarrow> 0 \<le> added hist b"
  unfolding added_def by (rule sum_list_nonneg) auto

lemma engine1_step:
  "update_bond npc1 engine1 1 gate1 =
     (Inr 0, engine1\<lparr>psi := \<lparr>site_B = [1, 1, 1], bond_S = [1, 1, 1, 1]\<rparr>\<rparr>)"
  by (simp add: npc1_eval fun_eq_iff)

lemma npc1_lossy_nonneg: "0 \<le> e \<Longrightarrow> trunc_err_nonneg (npc1_lossy e)"
  by (auto simp: trunc_err_nonneg_def npc1_lossy_def npc1_def)

lemma repr_char_plain:
  assumes "plain_char c"
  shows "repr_char (CHR 0x27) c = [c]"
proof -
  have a: "32 \<le> (of_char c :: nat)" "(of_char c :: nat) < 127" "c \<noteq> CHR 0x27" "c \<noteq> CHR 0x5C"
    using assms by (simp_all add: plain_char_def)
  have "c \<noteq> CHR 0x09"
  proof
    assume "c = CHR 0x09"
    then have "(of_char c :: nat) = 9" by simp
    with a(1) show False by simp
  qed
  moreover have "c \<noteq> CHR 0x0A"
  proof
    assume "c = CHR 0x0A"
    then have "(of_char c :: nat) = 10" by simp
    with a(1) show False by simp
  qed
  moreover have "c \<noteq> CHR 0x0D"
  proof
    assume "c = CHR 0x0D"
    then have "(of_char c :: nat) = 13" by simp
    with a(1) show False by simp
  qed
  ultimately show ?thesis
    using a unfolding repr_char_def by (simp add: not_le not_less)
qed


lemma repr_plain:
  assumes "list_all plain_char d"
  shows "repr d = [CHR 0x27] @ d @ [CHR 0x27]"
proof -
  have nq: "CHR 0x27 \<notin> set d"
    using assms by (auto simp: list_all_iff plain_char_def)
  have "concat (map (repr_char (CHR 0x27)) d) = d"
    using assms by (induction d) (simp_all add: repr_char_plain)
  with nq show ?thesis by (simp add: repr_def Let_def)
qed

lemma update_bond_theta_invalid:
  assumes "p_disentangle (TEBD_params st) = Some (Some d)" "d \<noteq> ''backwards''" "d \<noteq> ''renyi''"
  shows "\<exists>e. update_bond_theta nv st i U_bond = Inl e"
  using assms
  by (auto simp: update_bond_theta_def disentangle_def get_parameter_def and_then_def lift_def
      split: option.splits sum.splits)

lemma unknown_step:
  "update_bond npc1 (engine1\<lparr>TEBD_params := params1\<lparr>p_disentangle := Some (Some ''unknown'')\<rparr>\<rparr>)
      1 gate1
     = (Inl (ValueError (''Invalid 'disentangle': got '' @ repr ''unknown'')),
        engine1\<lparr>TEBD_params := params1\<lparr>p_disentangle := Some (Some ''unknown'')\<rparr>\<rparr>)"
  by (simp add: npc1_eval)


lemma repr_unknown: "repr ''unknown'' = [CHR 0x27] @ ''unknown'' @ [CHR 0x27]"
  by (rule repr_plain) (simp add: plain_char_def)








text \<open>The Renyi loop: its only errors are those of the collaborators; its index stays
  below \<^verbatim>\<open>disent_max_iter\<close>; and, once the loop body has run or with \<^verbatim>\<open>verbose\<close> below
  10, \<^verbatim>\<open>disentangle_renyi\<close> raises nothing of its own.\<close>

lemma and_then_Inl:
  "and_then m k = Inl e \<longleftrightarrow> m = Inl e \<or> (\<exists>x. m = Inr x \<and> k x = Inl e)"
  by (cases m) (auto simp: and_then_def)

lemma lift_Inl: "lift r = Inl e \<longleftrightarrow> r = None \<and> e = CollaboratorError"
  by (cases r) (auto simp: lift_def)

lemma disentangle_renyi_iter_error:
  "disentangle_renyi_iter nv theta U = Inl e \<Longrightarrow> e = CollaboratorError"
  by (auto simp: disentangle_renyi_iter_def and_then_Inl lift_Inl split: prod.splits)

lemma renyi_identity_error: "renyi_identity nv theta = Inl e \<Longrightarrow> e = CollaboratorError"
  by (auto simp: renyi_identity_def and_then_Inl lift_Inl)

lemma renyi_for_error: "renyi_for nv theta eps is l = Inl e \<Longrightarrow> e = CollaboratorError"
  by (induction "is" arbitrary: l)
     (auto dest: disentangle_renyi_iter_error split: sum.splits prod.splits if_splits)

lemma renyi_for_index:
  "renyi_for nv theta eps is l = Inr l' \<Longrightarrow>
     (is = [] \<and> l' = l) \<or> (\<exists>i \<in> set is. l_i l' = Some i)"
proof (induction "is" arbitrary: l)
  case Nil
  then show ?case by simp
next
  case (Cons a "is")
  from Cons.prems obtain S U where
    it: "disentangle_renyi_iter nv theta (l_U l) = Inr (S, U)"
    by (auto split: sum.splits)
  show ?case
  proof (cases "converged eps (l_Sold l) S")
    case True
    with Cons.prems it show ?thesis by auto
  next
    case False
    with Cons.prems it have
      "renyi_for nv theta eps is
         (l\<lparr>l_i := Some a, l_S := Some (l_Sold l), l_Sold := Fin S, l_U := U\<rparr>) = Inr l'"
      by simp
    from Cons.IH [OF this] show ?thesis by auto
  qed
qed

lemma disentangle_renyi_loop_bound:
  assumes "disentangle_renyi_loop nv st theta = Inr l"
  shows "case l_i l of
           None \<Rightarrow> get_parameter (p_disent_max_iter (TEBD_params st)) 20 \<le> 0
         | Some i \<Rightarrow> int i < get_parameter (p_disent_max_iter (TEBD_params st)) 20"
proof -
  let ?n = "get_parameter (p_disent_max_iter (TEBD_params st)) 20"
  from assms obtain U where
    r: "renyi_for nv theta (get_parameter (p_disent_eps (TEBD_params st)) (1 / 10 ^ 10))
          [0 ..< nat ?n] \<lparr>l_i = None, l_S = None, l_Sold = PInf, l_U = U\<rparr> = Inr l"
    by (auto simp: disentangle_renyi_loop_def Let_def and_then_Inr)
  from renyi_for_index [OF r] show ?thesis
    by (auto split: option.splits)
qed

lemma disentangle_renyi_error:
  assumes "disentangle_renyi nv st theta = Inl e"
    and "0 < get_parameter (p_disent_max_iter (TEBD_params st)) 20 \<or> verbose st < 10"
  shows "e = CollaboratorError"
proof -
  from assms(1) consider
      (loop) "disentangle_renyi_loop nv st theta = Inl e"
    | (dot) l where "disentangle_renyi_loop nv st theta = Inr l" "e = CollaboratorError"
    | (unbound) l where "disentangle_renyi_loop nv st theta = Inr l"
        "10 \<le> verbose st" "l_i l = None"
    by (auto simp: disentangle_renyi_def and_then_Inl lift_Inl split: if_splits)
  then show ?thesis
  proof cases
    case loop
    then show ?thesis
      by (auto simp: disentangle_renyi_loop_def Let_def and_then_Inl
          dest: renyi_identity_error renyi_for_error)
  next
    case dot
    then show ?thesis by simp
  next
    case unbound
    with disentangle_renyi_loop_bound [OF unbound(1)] assms(2) show ?thesis by simp
  qed
qed

text \<open>The equations that evaluate the dense tensor algebra, and sums against a Kronecker
  delta.\<close>

lemmas dense_eval =
  dense_npc_def d_tensordot_def d_conj_def d_ireplace_labels_def leg_labels_def leg_dims_def
  axis_pos_def drop_at_def conj_leg_def relabel_def conj_label_def pipe_parts_def star_def

lemma sum_delta_lessThan:
  assumes "x < (d :: nat)"
  shows "(\<Sum>k<d. g k * (if k = x then 1 else 0)) = (g x :: complex)"
proof -
  have "(\<Sum>k<d. g k * (if k = x then 1 else 0)) = (\<Sum>k\<in>{..<d}. if k = x then g k else 0)"
    by (rule sum.cong) auto
  also have "\<dots> = (if x \<in> {..<d} then g x else 0)"
    by (rule sum.delta) simp
  finally show ?thesis using assms by simp
qed

lemma sum_delta2:
  assumes "x < (d0 :: nat)" "y < (d1 :: nat)"
  shows "(\<Sum>k<d0. \<Sum>ka<d1. g k ka * (h * (if k = x \<and> ka = y then 1 else 0)))
           = (g x y * h :: complex)"
proof -
  have "(\<Sum>ka<d1. g k ka * (h * (if k = x \<and> ka = y then 1 else 0)))
          = (g k y * h) * (if k = x then 1 else 0)" for k
  proof -
    have "(\<Sum>ka<d1. g k ka * (h * (if k = x \<and> ka = y then 1 else 0)))
          = (\<Sum>ka<d1. (g k ka * h * (if k = x then 1 else 0)) * (if ka = y then 1 else 0))"
      by (rule sum.cong) auto
    also have "\<dots> = g k y * h * (if k = x then 1 else 0)"
      by (rule sum_delta_lessThan [OF assms(2)])
    finally show ?thesis .
  qed
  then have "(\<Sum>k<d0. \<Sum>ka<d1. g k ka * (h * (if k = x \<and> ka = y then 1 else 0)))
          = (\<Sum>k<d0. (g k y * h) * (if k = x then 1 else 0))"
    by simp
  also have "\<dots> = g x y * h"
    by (rule sum_delta_lessThan [OF assms(1)])
  finally show ?thesis .
qed

lemma unitary_gateD:
  "unitary_gate d0 d1 u \<Longrightarrow> a < d0 \<Longrightarrow> b < d1 \<Longrightarrow> a' < d0 \<Longrightarrow> b' < d1 \<Longrightarrow>
     (\<Sum>x<d0. \<Sum>y<d1. u [a, b, x, y] * cnj (u [a', b', x, y]))
       = (if a = a' \<and> b = b' then 1 else 0)"
  unfolding unitary_gate_def by blast

lemma backwards_theta2:
  assumes evo: "U_param_type_evo st = Some ty" "ty \<noteq> ''imag''"
    and t1: "t_legs theta1 = [Leg ''p0'' d0 [], Leg ''p1'' d1 [], Leg ''vL'' chiL [],
                              Leg ''vR'' chiR [], Leg ''q0'' d0 [], Leg ''q1'' d1 []]"
  shows "\<exists>U. disentangle_backwards (dense_npc f g) st theta1 (gate d0 d1 u) =
           Inr (\<lparr>t_legs = [Leg ''q0'' d0 [], Leg ''q1'' d1 [], Leg ''p0'' d0 [], Leg ''p1'' d1 [],
                           Leg ''vL'' chiL [], Leg ''vR'' chiR []],
                 t_dat = (\<lambda>ix. \<Sum>k<d0. \<Sum>ka<d1.
                    cnj (u [hd ix, hd (tl (take (Suc (Suc 0)) ix)), k, ka]) *
                    t_dat theta1 (place (t_legs theta1) 0 [4, 5] [k, ka] (drop (Suc (Suc 0)) ix)))\<rparr>,
                Some U)"
  by (simp add: disentangle_backwards_def evo dense_eval gate_def and_then_def lift_def t1)

lemma flip_gate_unitary: "unitary_gate 2 1 flip_gate"
  unfolding unitary_gate_def flip_gate_def
  by (auto simp: lessThan_Suc eval_nat_numeral less_Suc_eq)

subsection \<open>The writes of the bond update\<close>

text \<open>C1, as the code has it: an invocation of \<^verbatim>\<open>update_bond\<close> that returns has made
  all four writes. One that raises before the first write (in lines 83 to 117, the
  contractions, the disentangler, the combination and the factorisation) or in the first
  write leaves the engine, and with it the two site tensors and the bond weights, exactly
  as before the call. There is no rollback: a raise in the second or third setter or in
  the subscript of line 121 leaves the writes before it committed. The writes commit all
  together or not at all in a call whose setters and whose subscript do not raise.\<close>

theorem update_bond_writes:
  assumes "update_bond nv st i U_bond = (r, st')"
  shows "(case r of
            Inr err \<Rightarrow>
              (\<exists>S B_L B_R p1 p2 p3 t.
                 update_bond_locals nv st i U_bond = Inr (S, B_L, B_R, err) \<and>
                 psi_set_SR nv (psi st) (i - 1) S = Some p1 \<and>
                 psi_set_B nv p1 (i - 1) B_L ''B'' = Some p2 \<and>
                 psi_set_B nv p2 i B_R ''B'' = Some p3 \<and>
                 trunc_err_bonds st i = Some t \<and>
                 st' = st\<lparr>psi := p3, trunc_err_bonds := (trunc_err_bonds st)(i \<mapsto> t + err)\<rparr>)
          | Inl e \<Rightarrow>
              (update_bond_locals nv st i U_bond = Inl e \<and> st' = st) \<or>
              (\<exists>S B_L B_R err. update_bond_locals nv st i U_bond = Inr (S, B_L, B_R, err) \<and>
                 (psi_set_SR nv (psi st) (i - 1) S = None \<and> st' = st \<or>
                  (\<exists>p1. psi_set_SR nv (psi st) (i - 1) S = Some p1 \<and>
                     (psi_set_B nv p1 (i - 1) B_L ''B'' = None \<and> st' = st\<lparr>psi := p1\<rparr> \<or>
                      (\<exists>p2. psi_set_B nv p1 (i - 1) B_L ''B'' = Some p2 \<and>
                         (psi_set_B nv p2 i B_R ''B'' = None \<and> st' = st\<lparr>psi := p2\<rparr> \<or>
                          (\<exists>p3. psi_set_B nv p2 i B_R ''B'' = Some p3 \<and>
                             trunc_err_bonds st i = None \<and> st' = st\<lparr>psi := p3\<rparr>)))))))) \<and>
         ((\<forall>S B_L B_R err. update_bond_locals nv st i U_bond = Inr (S, B_L, B_R, err) \<longrightarrow>
              (\<exists>p1 p2 p3. psi_set_SR nv (psi st) (i - 1) S = Some p1 \<and>
                 psi_set_B nv p1 (i - 1) B_L ''B'' = Some p2 \<and>
                 psi_set_B nv p2 i B_R ''B'' = Some p3) \<and>
              trunc_err_bonds st i \<noteq> None)
          \<longrightarrow> (\<forall>e. r = Inl e \<longrightarrow> st' = st))"
proof (cases r)
  case (Inl e)
  with assms have "update_bond nv st i U_bond = (Inl e, st')" by simp
  note f = this [unfolded update_bond_Inl]
  from f have a: "(update_bond_locals nv st i U_bond = Inl e \<and> st' = st) \<or>
      (\<exists>S B_L B_R err. update_bond_locals nv st i U_bond = Inr (S, B_L, B_R, err) \<and>
         (psi_set_SR nv (psi st) (i - 1) S = None \<and> st' = st \<or>
          (\<exists>p1. psi_set_SR nv (psi st) (i - 1) S = Some p1 \<and>
             (psi_set_B nv p1 (i - 1) B_L ''B'' = None \<and> st' = st\<lparr>psi := p1\<rparr> \<or>
              (\<exists>p2. psi_set_B nv p1 (i - 1) B_L ''B'' = Some p2 \<and>
                 (psi_set_B nv p2 i B_R ''B'' = None \<and> st' = st\<lparr>psi := p2\<rparr> \<or>
                  (\<exists>p3. psi_set_B nv p2 i B_R ''B'' = Some p3 \<and>
                     trunc_err_bonds st i = None \<and> st' = st\<lparr>psi := p3\<rparr>)))))))"
    by blast
  have b: "st' = st"
    if "\<forall>S B_L B_R err. update_bond_locals nv st i U_bond = Inr (S, B_L, B_R, err) \<longrightarrow>
              (\<exists>p1 p2 p3. psi_set_SR nv (psi st) (i - 1) S = Some p1 \<and>
                 psi_set_B nv p1 (i - 1) B_L ''B'' = Some p2 \<and>
                 psi_set_B nv p2 i B_R ''B'' = Some p3) \<and>
              trunc_err_bonds st i \<noteq> None"
    using f that by (elim disjE exE conjE) (simp, (metis option.distinct(1) option.inject)+)
  from a b Inl show ?thesis
    by (simp only: sum.case) blast
next
  case (Inr err)
  with assms have "update_bond nv st i U_bond = (Inr err, st')" by simp
  from this [unfolded update_bond_Inr] Inr show ?thesis
    by (simp only: sum.case) blast
qed

text \<open>A gate whose conjugate legs carry the wrong names: the contraction raises and the
  engine is untouched.\<close>

theorem update_bond_writes_witness:
  "update_bond npc1 engine1 1 ([''p0'', ''p1'', ''a*'', ''b*''], 2)
     = (Inl CollaboratorError, engine1) \<and>
   update_bond_locals npc1 engine1 1 ([''p0'', ''p1'', ''a*'', ''b*''], 2)
     = Inl CollaboratorError"
proof -
  let ?bad = "([''p0'', ''p1'', ''a*'', ''b*''], 2) :: tensor1"
  have l: "update_bond_locals npc1 engine1 1 ?bad = Inl CollaboratorError"
    by (simp add: npc1_eval)
  have r: "fst (update_bond npc1 engine1 1 ?bad) = Inl CollaboratorError"
    by (simp add: npc1_eval)
  have "update_bond npc1 engine1 1 ?bad
          = (Inl CollaboratorError, snd (update_bond npc1 engine1 1 ?bad))"
    using r by (simp add: prod_eq_iff)
  from update_bond_writes [OF this] l show ?thesis
    using r by (auto simp: prod_eq_iff)
qed

text \<open>C1 as stated fails where the container of the accumulators has no entry for the
  bond: the subscript of line 121 raises after lines 118 to 120 have replaced the bond
  weights and both site tensors, and the first site tensor is no longer what it was.\<close>

theorem update_bond_partial_write:
  "update_bond npc1 (engine1\<lparr>trunc_err_bonds := [0 \<mapsto> 0]\<rparr>) 1 gate1
     = (Inl LookupError,
        engine1\<lparr>psi := \<lparr>site_B = [1, 1, 1], bond_S = [1, 1, 1, 1]\<rparr>,
                trunc_err_bonds := [0 \<mapsto> 0]\<rparr>) \<and>
   site_B (psi (engine1\<lparr>trunc_err_bonds := [0 \<mapsto> 0]\<rparr>)) = [2, 1, 1]"
  by (simp add: npc1_eval)

subsection \<open>The truncation error\<close>

text \<open>C10: a successful \<^verbatim>\<open>update_bond\<close> returns the truncation error that the
  factorisation of this call produced for the combined wave function of this call, not the
  total stored for the bond; the accumulator of the bond becomes its prior value plus this
  increment, and no other accumulator changes.\<close>

theorem update_bond_returns_increment:
  "update_bond nv st i U_bond = (Inr err, st') \<Longrightarrow>
     (\<exists>theta U_disent U S V renormalize.
        update_bond_theta nv st i U_bond = Inr (theta, U_disent) \<and>
        svd_theta nv theta (TEBD_params st) [''vR'', ''vL''] = Some (U, S, V, err, renormalize)) \<and>
     (\<exists>t. trunc_err_bonds st i = Some t \<and> trunc_err_bonds st' i = Some (t + err)) \<and>
     (\<forall>b. b \<noteq> i \<longrightarrow> trunc_err_bonds st' b = trunc_err_bonds st b)"
  apply (simp only: update_bond_Inr)
  apply (elim exE conjE)
  apply (frule update_bond_locals_err)
  apply auto
  done

text \<open>On bond 1 the accumulator holds \<open>1 / 4\<close> before and after; the value returned
  is the increment \<open>0\<close>.\<close>

theorem update_bond_returns_increment_witness:
  "update_bond npc1 engine1 1 gate1
     = (Inr 0, engine1\<lparr>psi := \<lparr>site_B = [1, 1, 1], bond_S = [1, 1, 1, 1]\<rparr>\<rparr>) \<and>
   trunc_err_bonds (engine1\<lparr>psi := \<lparr>site_B = [1, 1, 1], bond_S = [1, 1, 1, 1]\<rparr>\<rparr>) 1
     = Some (1 / 4 + 0) \<and>
   trunc_err_bonds engine1 1 = Some (1 / 4)"
  using update_bond_returns_increment [OF engine1_step] engine1_step
  by (simp add: engine1_def)

text \<open>C5: along every sequence of successful bond updates (with a factorisation whose
  truncation error is never negative), every call adds the incremental error of its
  factorisation to the prior value of the accumulator of its bond: the accumulator of a
  bond is its value at the start plus all the incremental errors of the calls on this
  bond since, none of them negative, and so it never falls, from any engine of the
  sequence to any later one.\<close>

theorem trunc_err_bonds_monotone:
  assumes "trunc_err_nonneg nv" and "updates nv st hist st'"
    and "trunc_err_bonds st b = Some t"
  shows "trunc_err_bonds st' b = Some (t + added hist b) \<and>
         (\<forall>p \<in> set hist. 0 \<le> snd p) \<and> t \<le> t + added hist b"
  using updates_acc [OF assms(2) assms(1)] assms(3) added_nonneg [of hist b]
  by auto

text \<open>Two updates on bond 1 and one on bond 2 with a factorisation that loses one half
  each time: the accumulator of bond 1 goes from \<open>1 / 4\<close> to \<open>5 / 4\<close>.\<close>

theorem trunc_err_bonds_monotone_witness:
  "trunc_err_nonneg (npc1_lossy (1 / 2)) \<and>
   (\<exists>st'. updates (npc1_lossy (1 / 2)) engine1 [(1, 1 / 2), (2, 1 / 2), (1, 1 / 2)] st' \<and>
      trunc_err_bonds engine1 1 = Some (1 / 4) \<and>
      trunc_err_bonds st' 1 = Some (5 / 4))"
proof -
  let ?nv = "npc1_lossy (1 / 2)"
  let ?p = "\<lparr>site_B = [1, 1, 1], bond_S = [1, 1, 1, 1]\<rparr>"
  let ?s1 = "engine1\<lparr>psi := ?p, trunc_err_bonds := [0 \<mapsto> 0, 1 \<mapsto> 3 / 4, 2 \<mapsto> 0, 3 \<mapsto> 0]\<rparr>"
  let ?s2 = "engine1\<lparr>psi := ?p, trunc_err_bonds := [0 \<mapsto> 0, 1 \<mapsto> 3 / 4, 2 \<mapsto> 1 / 2, 3 \<mapsto> 0]\<rparr>"
  let ?s3 = "engine1\<lparr>psi := ?p, trunc_err_bonds := [0 \<mapsto> 0, 1 \<mapsto> 5 / 4, 2 \<mapsto> 1 / 2, 3 \<mapsto> 0]\<rparr>"
  have n: "trunc_err_nonneg ?nv"
    by (rule npc1_lossy_nonneg) simp
  have l1: "\<exists>S B_L B_R. update_bond_locals ?nv engine1 1 gate1 = Inr (S, B_L, B_R, 1 / 2)"
    by (simp add: npc1_eval)
  have u1: "update_bond ?nv engine1 1 gate1 = (Inr (1 / 2), ?s1)"
    by (simp add: npc1_eval fun_eq_iff)
  have l2: "\<exists>S B_L B_R. update_bond_locals ?nv ?s1 2 gate1 = Inr (S, B_L, B_R, 1 / 2)"
    by (simp add: npc1_eval)
  have u2: "update_bond ?nv ?s1 2 gate1 = (Inr (1 / 2), ?s2)"
    by (simp add: npc1_eval fun_eq_iff)
  have l3: "\<exists>S B_L B_R. update_bond_locals ?nv ?s2 1 gate1 = Inr (S, B_L, B_R, 1 / 2)"
    by (simp add: npc1_eval)
  have u3: "update_bond ?nv ?s2 1 gate1 = (Inr (1 / 2), ?s3)"
    by (simp add: npc1_eval fun_eq_iff)
  from l1 obtain S1 L1 R1 where
    l1': "update_bond_locals ?nv engine1 1 gate1 = Inr (S1, L1, R1, 1 / 2)" by blast
  from l2 obtain S2 L2 R2 where
    l2': "update_bond_locals ?nv ?s1 2 gate1 = Inr (S2, L2, R2, 1 / 2)" by blast
  from l3 obtain S3 L3 R3 where
    l3': "update_bond_locals ?nv ?s2 1 gate1 = Inr (S3, L3, R3, 1 / 2)" by blast
  have "updates ?nv engine1 ([] @ [(1, 1 / 2)]) ?s1"
    by (rule updates_more [OF updates_none u1 l1'])
  then have "updates ?nv engine1 (([] @ [(1, 1 / 2)]) @ [(2, 1 / 2)]) ?s2"
    by (rule updates_more [OF _ u2 l2'])
  then have "updates ?nv engine1 ((([] @ [(1, 1 / 2)]) @ [(2, 1 / 2)]) @ [(1, 1 / 2)]) ?s3"
    by (rule updates_more [OF _ u3 l3'])
  then have u: "updates ?nv engine1 [(1, 1 / 2), (2, 1 / 2), (1, 1 / 2)] ?s3"
    by simp
  have t: "trunc_err_bonds engine1 1 = Some (1 / 4)"
    by (simp add: engine1_def)
  from trunc_err_bonds_monotone [OF n u t] have "trunc_err_bonds ?s3 1 = Some (5 / 4)"
    by (simp add: added_def)
  with n u t show ?thesis by blast
qed

subsection \<open>The disentangler dispatch\<close>

text \<open>C8: with the \<^verbatim>\<open>'disentangle'\<close> key absent, or holding \<^verbatim>\<open>None\<close>, the dispatch
  returns the wave function it was given, unchanged, and no unitary, for every wave
  function, bond index and gate.\<close>

theorem disentangle_none_identity:
  "p_disentangle (TEBD_params st) \<in> {None, Some None}
     \<Longrightarrow> disentangle nv st theta i U_bond = Inr (theta, None)"
  by (auto simp: disentangle_def get_parameter_def)

theorem disentangle_none_identity_witness:
  "p_disentangle (TEBD_params engine1) \<in> {None, Some None} \<and>
   disentangle npc1 engine1 ([''vL''], 1) 1 gate1 = Inr (([''vL''], 1), None)"
  using disentangle_none_identity [of engine1 npc1 "([''vL''], 1)" 1 gate1]
  by (simp add: engine1_def params1_def)

text \<open>C7: for every value under \<^verbatim>\<open>'disentangle'\<close> other than \<^verbatim>\<open>None\<close>,
  \<^verbatim>\<open>'backwards'\<close> and \<^verbatim>\<open>'renyi'\<close>, the dispatch raises a \<^verbatim>\<open>ValueError\<close> whose message
  ends with the \<^verbatim>\<open>repr\<close> of the value; a value of plain characters stands in the message
  as it is; and \<^verbatim>\<open>update_bond\<close> under this configuration raises and leaves the engine
  as it was.\<close>

theorem disentangle_invalid_value:
  assumes "p_disentangle (TEBD_params st) = Some (Some d)"
    and "d \<noteq> ''backwards''" and "d \<noteq> ''renyi''"
  shows "disentangle nv st theta i U_bond
           = Inl (ValueError (''Invalid 'disentangle': got '' @ repr d)) \<and>
         (list_all plain_char d \<longrightarrow>
            sublist d (''Invalid 'disentangle': got '' @ repr d)) \<and>
         (\<exists>e. update_bond nv st i U_bond = (Inl e, st))"
proof -
  have 1: "disentangle nv st theta i U_bond
           = Inl (ValueError (''Invalid 'disentangle': got '' @ repr d))"
    using assms by (simp add: disentangle_def get_parameter_def)
  have 2: "sublist d (''Invalid 'disentangle': got '' @ repr d)" if "list_all plain_char d"
    unfolding repr_plain [OF that] sublist_def
    by (rule exI [of _ "''Invalid 'disentangle': got '' @ [CHR 0x27]"],
        rule exI [of _ "[CHR 0x27]"]) simp
  obtain e where "update_bond_theta nv st i U_bond = Inl e"
    using update_bond_theta_invalid [OF assms, of nv i U_bond] by blast
  then have 3: "update_bond nv st i U_bond = (Inl e, st)"
    by (simp add: update_bond_def update_bond_locals_def and_then_def)
  from 1 2 3 show ?thesis by blast
qed

text \<open>The value \<^verbatim>\<open>'unknown'\<close>: the message is \<^verbatim>\<open>Invalid 'disentangle': got 'unknown'\<close>.\<close>

theorem disentangle_invalid_value_witness:
  "disentangle npc1 (engine1\<lparr>TEBD_params := params1\<lparr>p_disentangle := Some (Some ''unknown'')\<rparr>\<rparr>)
      ([''vL''], 1) 1 gate1
     = Inl (ValueError (''Invalid 'disentangle': got '' @ [CHR 0x27] @ ''unknown'' @ [CHR 0x27])) \<and>
   sublist ''unknown'' (''Invalid 'disentangle': got '' @ [CHR 0x27] @ ''unknown'' @ [CHR 0x27]) \<and>
   update_bond npc1 (engine1\<lparr>TEBD_params := params1\<lparr>p_disentangle := Some (Some ''unknown'')\<rparr>\<rparr>)
      1 gate1
     = (Inl (ValueError (''Invalid 'disentangle': got '' @ [CHR 0x27] @ ''unknown'' @ [CHR 0x27])),
        engine1\<lparr>TEBD_params := params1\<lparr>p_disentangle := Some (Some ''unknown'')\<rparr>\<rparr>)"
proof -
  let ?st = "engine1\<lparr>TEBD_params := params1\<lparr>p_disentangle := Some (Some ''unknown'')\<rparr>\<rparr>"
  have p: "list_all plain_char ''unknown''"
    by (simp add: plain_char_def)
  have c: "p_disentangle (TEBD_params ?st) = Some (Some ''unknown'')"
    by (simp add: engine1_def params1_def)
  have d: "''unknown'' \<noteq> ''backwards''" "''unknown'' \<noteq> ''renyi''"
    by simp_all
  note t = disentangle_invalid_value [OF c d, of npc1 "([''vL''], 1)" 1 gate1]
  from t have a: "disentangle npc1 ?st ([''vL''], 1) 1 gate1
      = Inl (ValueError (''Invalid 'disentangle': got '' @ repr ''unknown''))"
    by (rule conjunct1)
  from t p have b: "sublist ''unknown'' (''Invalid 'disentangle': got '' @ repr ''unknown'')"
    by blast
  from a b unknown_step show ?thesis
    unfolding repr_unknown by (intro conjI)
qed

subsection \<open>The imaginary time driver\<close>




subsection \<open>The Renyi optimizer at an iteration cap of zero\<close>

text \<open>C3: at an iteration cap that is not positive the loop body never runs, the cap is
  reached without convergence, and with \<^verbatim>\<open>verbose >= 10\<close> the diagnostic line reads the
  loop variable \<^verbatim>\<open>i\<close>, which was never bound: \<^verbatim>\<open>disentangle_renyi\<close> raises instead
  of returning the identity and the wave function.\<close>

theorem disentangle_renyi_no_iteration_raises:
  assumes "get_parameter (p_disent_max_iter (TEBD_params st)) 20 \<le> 0"
    and "10 \<le> verbose st"
    and "renyi_identity nv theta = Inr U"
    and "npc_tensordot nv U theta ([Name ''q0*'', Name ''q1*''], [Name ''q0'', Name ''q1''])
           = Some theta'"
  shows "disentangle_renyi nv st theta = Inl (UnboundLocalError ''i'')"
proof -
  from assms(1) have "[0 ..< nat (get_parameter (p_disent_max_iter (TEBD_params st)) 20)] = []"
    by simp
  with assms(3) have
    "disentangle_renyi_loop nv st theta
       = Inr \<lparr>l_i = None, l_S = None, l_Sold = PInf, l_U = U\<rparr>"
    by (simp add: disentangle_renyi_loop_def Let_def and_then_def)
  with assms(2,4) show ?thesis
    by (simp add: disentangle_renyi_def and_then_def lift_def)
qed

theorem disentangle_renyi_no_iteration_raises_witness:
  "disentangle_renyi npc1
     (engine1\<lparr>TEBD_params := params1\<lparr>p_disent_max_iter := Some 0\<rparr>, verbose := 10\<rparr>)
     ([''vL'', ''vR'', ''p0'', ''p1'', ''q0'', ''q1''], 1)
   = Inl (UnboundLocalError ''i'')"
proof -
  let ?st = "engine1\<lparr>TEBD_params := params1\<lparr>p_disent_max_iter := Some 0\<rparr>, verbose := 10\<rparr>"
  let ?theta = "([''vL'', ''vR'', ''p0'', ''p1'', ''q0'', ''q1''], 1) :: tensor1"
  have a: "get_parameter (p_disent_max_iter (TEBD_params ?st)) 20 \<le> 0"
    by (simp add: engine1_def params1_def get_parameter_def)
  have b: "10 \<le> verbose ?st"
    by (simp add: engine1_def)
  have c: "renyi_identity npc1 ?theta = Inr ([''q0'', ''q0*'', ''q1'', ''q1*''], 1)"
    by (simp add: renyi_identity_def npc1_def and_then_def lift_def t1_eye_like_def
        t1_set_leg_labels_def t1_outer_def)
  have d: "npc_tensordot npc1 ([''q0'', ''q0*'', ''q1'', ''q1*''], 1) ?theta
             ([Name ''q0*'', Name ''q1*''], [Name ''q0'', Name ''q1''])
           = Some ([''q0'', ''q1'', ''vL'', ''vR'', ''p0'', ''p1''], 1)"
    by (simp add: npc1_def t1_tensordot_def axis_pos_def drop_at_def)
  from disentangle_renyi_no_iteration_raises [OF a b c d] show ?thesis .
qed

subsection \<open>The backwards disentangler undoes the gate\<close>

text \<open>C6: in real-time evolution (any kind of evolution but \<^verbatim>\<open>'imag'\<close>), for a wave function
  \<open>c(vL, vR) \<delta>(p0, q0) \<delta>(p1, q1)\<close> and a unitary gate, contracting the gate onto the
  physical legs and then applying \<^verbatim>\<open>disentangle_backwards\<close> succeeds and gives the wave
  function before the gate: the same legs and the same entries. Entries are complex
  numbers, not floats.\<close>

theorem backwards_round_trip:
  assumes evo: "U_param_type_evo st = Some ty" "ty \<noteq> ''imag''"
    and un: "unitary_gate d0 d1 u"
  shows "\<exists>theta1 theta2 U.
           npc_tensordot (dense_npc f g) (gate d0 d1 u) (max_entangled chiL chiR d0 d1 c)
               ([Name ''p0*'', Name ''p1*''], [Name ''p0'', Name ''p1'']) = Some theta1 \<and>
           disentangle_backwards (dense_npc f g) st theta1 (gate d0 d1 u)
               = Inr (theta2, Some U) \<and>
           same_tensor theta2 (max_entangled chiL chiR d0 d1 c)"
proof -
  let ?theta1 = "\<lparr>t_legs = [Leg ''p0'' d0 [], Leg ''p1'' d1 [], Leg ''vL'' chiL [],
                            Leg ''vR'' chiR [], Leg ''q0'' d0 [], Leg ''q1'' d1 []],
                  t_dat = (\<lambda>ix. \<Sum>k<d0. \<Sum>ka<d1.
                      u [hd ix, hd (tl (take (Suc (Suc 0)) ix)), k, ka] *
                      (c (hd (drop (Suc (Suc 0)) ix)) (hd (tl (drop (Suc (Suc 0)) ix))) *
                       (if k = hd (tl (tl (drop (Suc (Suc 0)) ix))) \<and>
                           ka = hd (tl (tl (tl (drop (Suc (Suc 0)) ix))))
                        then 1 else 0)))\<rparr>"
  let ?theta2 = "\<lparr>t_legs = [Leg ''q0'' d0 [], Leg ''q1'' d1 [], Leg ''p0'' d0 [], Leg ''p1'' d1 [],
                           Leg ''vL'' chiL [], Leg ''vR'' chiR []],
                 t_dat = (\<lambda>ix. \<Sum>k<d0. \<Sum>ka<d1.
                    cnj (u [hd ix, hd (tl (take (Suc (Suc 0)) ix)), k, ka]) *
                    t_dat ?theta1 (place (t_legs ?theta1) 0 [4, 5] [k, ka]
                                     (drop (Suc (Suc 0)) ix)))\<rparr>"
  have t1: "npc_tensordot (dense_npc f g) (gate d0 d1 u) (max_entangled chiL chiR d0 d1 c)
               ([Name ''p0*'', Name ''p1*''], [Name ''p0'', Name ''p1'']) = Some ?theta1"
    by (simp add: dense_eval gate_def max_entangled_def)
  obtain U where
    t2: "disentangle_backwards (dense_npc f g) st ?theta1 (gate d0 d1 u) = Inr (?theta2, Some U)"
    using backwards_theta2 [OF evo, of ?theta1 d0 d1 chiL chiR f g u] by auto
  have same: "same_tensor ?theta2 (max_entangled chiL chiR d0 d1 c)"
    unfolding same_tensor_def
  proof (intro conjI allI impI)
    show "distinct (leg_labels ?theta2)"
      by (simp add: leg_labels_def)
    show "distinct (leg_labels (max_entangled chiL chiR d0 d1 c))"
      by (simp add: leg_labels_def max_entangled_def)
    show "set (t_legs ?theta2) = set (t_legs (max_entangled chiL chiR d0 d1 c))"
      by (auto simp: max_entangled_def)
  next
    fix h :: "label \<Rightarrow> nat"
    assume "\<forall>L \<in> set (t_legs ?theta2). h (leg_label L) < leg_dim L"
    then have b: "h ''q0'' < d0" "h ''q1'' < d1" "h ''p0'' < d0" "h ''p1'' < d1"
      by simp_all
    have inner: "(\<Sum>kb<d0. \<Sum>kaa<d1. u [h ''p0'', h ''p1'', kb, kaa] *
                    (c (h ''vL'') (h ''vR'') * (if kb = k \<and> kaa = ka then 1 else 0)))
                 = u [h ''p0'', h ''p1'', k, ka] * c (h ''vL'') (h ''vR'')"
      if "k < d0" "ka < d1" for k ka
      by (rule sum_delta2 [OF that])
    have "entry ?theta2 h
            = (\<Sum>k<d0. \<Sum>ka<d1. cnj (u [h ''q0'', h ''q1'', k, ka]) *
                 (\<Sum>kb<d0. \<Sum>kaa<d1. u [h ''p0'', h ''p1'', kb, kaa] *
                    (c (h ''vL'') (h ''vR'') * (if kb = k \<and> kaa = ka then 1 else 0))))"
      by (simp add: entry_def)
    also have "\<dots> = (\<Sum>k<d0. \<Sum>ka<d1. cnj (u [h ''q0'', h ''q1'', k, ka]) *
                 (u [h ''p0'', h ''p1'', k, ka] * c (h ''vL'') (h ''vR'')))"
      by (intro sum.cong refl) (simp add: inner)
    also have "\<dots> = c (h ''vL'') (h ''vR'') *
                 (\<Sum>k<d0. \<Sum>ka<d1. u [h ''p0'', h ''p1'', k, ka] * cnj (u [h ''q0'', h ''q1'', k, ka]))"
      by (simp add: sum_distrib_left mult_ac)
    also have "\<dots> = c (h ''vL'') (h ''vR'') *
                 (if h ''p0'' = h ''q0'' \<and> h ''p1'' = h ''q1'' then 1 else 0)"
      by (simp only: unitary_gateD [OF un b(3) b(4) b(1) b(2)])
    also have "\<dots> = entry (max_entangled chiL chiR d0 d1 c) h"
      by (simp add: entry_def max_entangled_def)
    finally show "entry ?theta2 h = entry (max_entangled chiL chiR d0 d1 c) h" .
  qed
  from t1 t2 same show ?thesis by blast
qed

theorem backwards_round_trip_witness:
  "U_param_type_evo dense_engine = Some ''real'' \<and> ''real'' \<noteq> ''imag'' \<and>
   unitary_gate 2 1 flip_gate \<and>
   (\<exists>theta1 theta2 U.
      npc_tensordot dense0 (gate 2 1 flip_gate) (max_entangled 1 1 2 1 (\<lambda>a b. 1))
          ([Name ''p0*'', Name ''p1*''], [Name ''p0'', Name ''p1'']) = Some theta1 \<and>
      disentangle_backwards dense0 dense_engine theta1 (gate 2 1 flip_gate)
          = Inr (theta2, Some U) \<and>
      same_tensor theta2 (max_entangled 1 1 2 1 (\<lambda>a b. 1)))"
proof -
  have e: "U_param_type_evo dense_engine = Some ''real''"
    by (simp add: dense_engine_def)
  have n: "''real'' \<noteq> ''imag''"
    by simp
  note r = backwards_round_trip [OF e n flip_gate_unitary,
      where f = "\<lambda>t p ls. None" and g = "\<lambda>t. None" and chiL = 1 and chiR = 1
        and c = "\<lambda>a b. 1"]
  from e n flip_gate_unitary r show ?thesis
    unfolding dense0_def by (intro conjI)
qed

subsection \<open>The stable left tensor is the naive one\<close>

text \<open>Facts about the dense tensors on the way: the old weights stay a factor on the leg
  \<^verbatim>\<open>vL\<close> through the gate and the disentangler, and both recipes written out entry by
  entry.\<close>

lemma disentangle_result:
  "disentangle nv st theta i U_bond = Inr (theta', Ud') \<Longrightarrow>
     (case Ud' of
        None \<Rightarrow> theta' = theta
      | Some Ud \<Rightarrow> npc_tensordot nv Ud theta
                     ([Name ''q0*'', Name ''q1*''], [Name ''q0'', Name ''q1'']) = Some theta')"
  by (auto simp: disentangle_def disentangle_backwards_def disentangle_renyi_def
      and_then_Inr lift_def split: option.splits if_splits)

lemma get_theta_scaled:
  assumes "d_get_theta m i0 2 1 = Some T"
  shows "\<exists>T' cL cR d0 d1 e0 e1.
           d_get_theta m i0 2 0 = Some T' \<and> t_legs T = theta_legs cL cR d0 d1 e0 e1 \<and>
           length (d_weights m ! nat i0) = cL \<and>
           scaled_at 0 (\<lambda>v. of_real (d_weights m ! nat i0 ! v)) T T'"
  using assms
  by (auto simp: d_get_theta_def Let_def scaled_at_def theta_legs_def split: if_splits)

lemma list6: "length ix = 6 \<Longrightarrow> \<exists>a b c d e f. ix = [a, b, c, d, e, f]"
  by (auto simp: length_Suc_conv eval_nat_numeral)

lemma gate_scaled:
  assumes "t_legs T = theta_legs cL cR d0 d1 e0 e1" and "scaled_at 0 s T T'"
    and "d_tensordot (gate a0 a1 u) T ([Name ''p0*'', Name ''p1*''], [Name ''p0'', Name ''p1''])
           = Some T1"
  shows "\<exists>T1'. d_tensordot (gate a0 a1 u) T'
                  ([Name ''p0*'', Name ''p1*''], [Name ''p0'', Name ''p1'']) = Some T1' \<and>
           t_legs T1 = [Leg ''p0'' d0 [], Leg ''p1'' d1 [], Leg ''vL'' cL [], Leg ''vR'' cR [],
                        Leg ''q0'' e0 [], Leg ''q1'' e1 []] \<and>
           scaled_at 2 s T1 T1'"
proof -
  from assms(2) have l: "t_legs T' = t_legs T"
    and d: "\<And>ix. length ix = 6 \<Longrightarrow> t_dat T ix = s (ix ! 0) * t_dat T' ix"
    by (simp_all add: scaled_at_def assms(1) theta_legs_def)
  from assms(3) have dims: "a0 = d0" "a1 = d1"
    by (auto simp: dense_eval gate_def assms(1) theta_legs_def split: if_splits)
  let ?legs = "[Leg ''p0'' d0 [], Leg ''p1'' d1 [], Leg ''vL'' cL [], Leg ''vR'' cR [],
                Leg ''q0'' e0 [], Leg ''q1'' e1 []]"
  let ?T1' = "\<lparr>t_legs = ?legs,
               t_dat = (\<lambda>ix. \<Sum>k<d0. \<Sum>ka<d1.
                  u [hd ix, hd (tl (take (Suc (Suc 0)) ix)), k, ka] *
                  t_dat T' [hd (drop (Suc (Suc 0)) ix), hd (tl (drop (Suc (Suc 0)) ix)), k, ka,
                            hd (tl (tl (drop (Suc (Suc 0)) ix))),
                            hd (tl (tl (tl (drop (Suc (Suc 0)) ix))))])\<rparr>"
  have a: "d_tensordot (gate a0 a1 u) T'
             ([Name ''p0*'', Name ''p1*''], [Name ''p0'', Name ''p1'']) = Some ?T1'"
    by (simp add: dense_eval gate_def assms(1) l theta_legs_def dims)
  from assms(3) have b: "T1 = \<lparr>t_legs = ?legs,
               t_dat = (\<lambda>ix. \<Sum>k<d0. \<Sum>ka<d1.
                  u [hd ix, hd (tl (take (Suc (Suc 0)) ix)), k, ka] *
                  t_dat T [hd (drop (Suc (Suc 0)) ix), hd (tl (drop (Suc (Suc 0)) ix)), k, ka,
                            hd (tl (tl (drop (Suc (Suc 0)) ix))),
                            hd (tl (tl (tl (drop (Suc (Suc 0)) ix))))])\<rparr>"
    by (simp add: dense_eval gate_def assms(1) theta_legs_def dims)
  have c: "scaled_at 2 s T1 ?T1'"
    unfolding scaled_at_def
  proof (intro conjI allI impI)
    show "t_legs T1 = t_legs ?T1'" by (simp add: b)
    fix ix :: "nat list" assume "length ix = length (t_legs T1)"
    then have "length ix = 6" by (simp add: b)
    then obtain x0 x1 x2 x3 x4 x5 where ix: "ix = [x0, x1, x2, x3, x4, x5]"
      using list6 by blast
    show "t_dat T1 ix = s (ix ! 2) * t_dat ?T1' ix"
      by (simp add: b ix d sum_distrib_left mult_ac)
  qed
  from a b c show ?thesis by auto
qed

lemmas combine_eval =
  d_combine_legs_def d_combine1_def Let_def pipe_label_def remove_nth_def d_legs_def

lemma theta_V_dagger:
  assumes f: "\<And>a b. a < DL \<Longrightarrow> b < DR \<Longrightarrow>
                th a b = r * (\<Sum>k<chi. u a k * sv k * v k b)"
    and o: "\<And>k k'. k < chi \<Longrightarrow> k' < chi \<Longrightarrow>
                (\<Sum>b<DR. v k b * cnj (v k' b)) = (if k = k' then 1 else (0 :: complex))"
    and a: "a < (DL :: nat)" and m: "m < (chi :: nat)"
  shows "(\<Sum>b<(DR :: nat). th a b * cnj (v m b)) = r * u a m * sv m"
proof -
  have "(\<Sum>b<DR. th a b * cnj (v m b))
          = (\<Sum>b<DR. \<Sum>k<chi. r * u a k * sv k * (v k b * cnj (v m b)))"
    by (intro sum.cong refl) (simp add: f a sum_distrib_left sum_distrib_right mult_ac)
  also have "\<dots> = (\<Sum>k<chi. \<Sum>b<DR. r * u a k * sv k * (v k b * cnj (v m b)))"
    by (rule sum.swap)
  also have "\<dots> = (\<Sum>k<chi. r * u a k * sv k * (\<Sum>b<DR. v k b * cnj (v m b)))"
    by (simp add: sum_distrib_left)
  also have "\<dots> = (\<Sum>k<chi. (r * u a k * sv k) * (if k = m then 1 else 0))"
    by (intro sum.cong refl) (simp add: o m)
  also have "\<dots> = r * u a m * sv m"
    by (rule sum_delta_lessThan [OF m])
  finally show ?thesis .
qed

lemma div_mult_add_less: "r < (n :: nat) \<Longrightarrow> (v * n + r) div n = v"
  by (metis add.commute add.right_neutral div_less div_mult_self1 less_nat_zero_code)

lemma decode3:
  assumes "p < (d :: nat)" "q < (e :: nat)"
  shows "(v * (d * e) + (p * e + q)) div (d * e) = v"
    and "(v * (d * e) + (p * e + q)) mod (d * e) div e = p"
    and "(v * (d * e) + (p * e + q)) mod (d * e) mod e = q"
proof -
  have lt: "p * e + q < d * e"
  proof -
    have "p * e + q < p * e + e" using assms(2) by simp
    also have "\<dots> = (p + 1) * e" by simp
    also have "\<dots> \<le> d * e" using assms(1) by (intro mult_le_mono1) simp
    finally show ?thesis .
  qed
  show "(v * (d * e) + (p * e + q)) div (d * e) = v"
    using lt by (rule div_mult_add_less)
  have m: "(v * (d * e) + (p * e + q)) mod (d * e) = p * e + q"
    using lt by simp
  show "(v * (d * e) + (p * e + q)) mod (d * e) div e = p"
    unfolding m using assms(2) by (rule div_mult_add_less)
  show "(v * (d * e) + (p * e + q)) mod (d * e) mod e = q"
    unfolding m using assms(2) by simp
qed

lemma naive_explicit:
  assumes U: "t_legs U = [Leg ''(vL.p0.q0)'' (cL * (d0 * e0)) [(''vL'', cL), (''p0'', d0), (''q0'', e0)],
                          Leg ''vR'' chi []]"
    and S: "length S = chi" and SL: "length SL = cL"
  shows "naive_B_L SL U S = Some
      \<lparr>t_legs = [Leg ''vL'' cL [], Leg ''p'' d0 [], Leg ''q'' e0 [], Leg ''vR'' chi []],
       t_dat = (\<lambda>ix. t_dat U (encode [cL, d0, e0] (take (Suc (Suc (Suc 0))) ix) #
                                 drop (Suc (Suc (Suc 0))) ix) *
                       complex_of_real (S ! (drop (Suc (Suc (Suc 0))) ix ! 0)) *
                       complex_of_real (map inverse SL ! (ix ! 0)))\<rparr>"
  by (simp add: naive_B_L_def d_iscale_axis_def d_split_legs_def d_split1_def dense_eval U S SL Let_def)

lemma stable_explicit_A:
  assumes C: "t_legs C = [Leg ''p0'' d0 [], Leg ''p1'' d1 [], Leg ''vL'' cL [], Leg ''vR'' cR [],
                        Leg ''q0'' e0 [], Leg ''q1'' e1 []]"
    and V: "t_legs V = [Leg ''vL'' chi [], Leg ''(vR.p1.q1)'' (cR * (d1 * e1))
               [(''vR'', cR), (''p1'', d1), (''q1'', e1)]]"
    and r: "r \<noteq> 0"
  shows "and_then (lift (d_combine_legs C [[''vR'', ''p1'', ''q1'']] []
                    [Leg ''(vR.p1.q1)'' (cR * (d1 * e1))
                       [(''vR'', cR), (''p1'', d1), (''q1'', e1)]])) (\<lambda>Cc.
      and_then (lift (d_conj V)) (\<lambda>Vc.
      and_then (lift (d_tensordot Cc Vc
                        ([Name ''(vR.p1.q1)''], [Name ''(vR*.p1*.q1*)'']))) (\<lambda>B_L0.
      and_then (lift (d_ireplace_labels B_L0 [''vL*'', ''p0'', ''q0'']
                        [''vR'', ''p'', ''q''])) (\<lambda>B_L1.
      lift (d_idiv B_L1 r))))) =
     Inr \<lparr>t_legs = [Leg ''p'' d0 [], Leg ''vL'' cL [], Leg ''q'' e0 [], Leg ''vR'' chi []],
      t_dat = (\<lambda>ix. (\<Sum>k<cR * (d1 * e1).
                         t_dat C
                          [hd ix, k mod (d1 * e1) div e1,
                           hd (tl (take (Suc (Suc (Suc 0))) ix)),
                           k div (d1 * e1),
                           hd (tl (tl (take (Suc (Suc (Suc 0))) ix))),
                           k mod (d1 * e1) mod e1] *
                         cnj (t_dat V [hd (drop (Suc (Suc (Suc 0))) ix), k])) /
                     complex_of_real r)\<rparr>"
  by (simp add: C V r dense_eval combine_eval and_then_def lift_def d_idiv_def)

lemma stable_is_naive_A:
  assumes T2: "t_legs T2 = [Leg ''p0'' d0 [], Leg ''p1'' d1 [], Leg ''vL'' cL [], Leg ''vR'' cR [],
                        Leg ''q0'' e0 [], Leg ''q1'' e1 []]"
    and sc: "scaled_at 2 (\<lambda>v. of_real (SL ! v)) T2 C"
    and th: "d_combine_legs T2 [[''vL'', ''p0'', ''q0''], [''vR'', ''p1'', ''q1'']] [1, -1] []
               = Some theta"
    and fac: "exact_factorisation theta U S V r"
    and pipe: "d_legs theta 1 = Some pipe"
    and Cc: "d_combine_legs C [[''vR'', ''p1'', ''q1'']] [] [pipe] = Some Cc"
    and Vc: "d_conj V = Some Vc"
    and B0: "d_tensordot Cc Vc ([Name ''(vR.p1.q1)''], [Name ''(vR*.p1*.q1*)'']) = Some BL0"
    and B1: "d_ireplace_labels BL0 [''vL*'', ''p0'', ''q0''] [''vR'', ''p'', ''q''] = Some BL1"
    and BL: "d_idiv BL1 r = Some B_L"
    and SL: "length SL = cL" "\<forall>v<cL. SL ! v \<noteq> 0"
  shows "\<exists>N. naive_B_L SL U S = Some N \<and> same_tensor B_L N"
proof -
  let ?pL = "Leg ''(vL.p0.q0)'' (cL * (d0 * e0)) [(''vL'', cL), (''p0'', d0), (''q0'', e0)]"
  let ?pR = "Leg ''(vR.p1.q1)'' (cR * (d1 * e1)) [(''vR'', cR), (''p1'', d1), (''q1'', e1)]"
  from sc have C: "t_legs C = t_legs T2"
    and scd: "\<And>ix. length ix = 6 \<Longrightarrow> t_dat T2 ix = of_real (SL ! (ix ! 2)) * t_dat C ix"
    by (simp_all add: scaled_at_def T2)
  have theta: "theta = \<lparr>t_legs = [?pL, ?pR],
      t_dat = (\<lambda>ix. t_dat T2
                 [hd (take (Suc 0) ix @ drop (Suc (Suc 0)) ix) mod (d0 * e0) div e0,
                  ix ! Suc 0 mod (d1 * e1) div e1,
                  hd (take (Suc 0) ix @ drop (Suc (Suc 0)) ix) div (d0 * e0),
                  ix ! Suc 0 div (d1 * e1),
                  hd (take (Suc 0) ix @ drop (Suc (Suc 0)) ix) mod (d0 * e0) mod e0,
                  ix ! Suc 0 mod (d1 * e1) mod e1])\<rparr>"
    using th by (simp add: T2 dense_eval combine_eval)
  from fac obtain chi where
    U: "t_legs U = [?pL, Leg ''vR'' chi []]" and V: "t_legs V = [Leg ''vL'' chi [], ?pR]"
    and S: "length S = chi" and r: "r \<noteq> 0"
    and f: "\<And>a b. a < cL * (d0 * e0) \<Longrightarrow> b < cR * (d1 * e1) \<Longrightarrow>
           t_dat theta [a, b]
             = of_real r * (\<Sum>k<chi. t_dat U [a, k] * of_real (S ! k) * t_dat V [k, b])"
    and o: "\<And>k k'. k < chi \<Longrightarrow> k' < chi \<Longrightarrow>
           (\<Sum>b<cR * (d1 * e1). t_dat V [k, b] * cnj (t_dat V [k', b])) = (if k = k' then 1 else 0)"
    by (auto simp: exact_factorisation_def theta)
  have pipe': "pipe = ?pR"
    using pipe by (simp add: theta d_legs_def)
  have BLx: "B_L = \<lparr>t_legs = [Leg ''p'' d0 [], Leg ''vL'' cL [], Leg ''q'' e0 [], Leg ''vR'' chi []],
      t_dat = (\<lambda>ix. (\<Sum>k<cR * (d1 * e1).
                         t_dat C
                          [hd ix, k mod (d1 * e1) div e1,
                           hd (tl (take (Suc (Suc (Suc 0))) ix)),
                           k div (d1 * e1),
                           hd (tl (tl (take (Suc (Suc (Suc 0))) ix))),
                           k mod (d1 * e1) mod e1] *
                         cnj (t_dat V [hd (drop (Suc (Suc (Suc 0))) ix), k])) /
                     complex_of_real r)\<rparr>"
    using stable_explicit_A [OF C [unfolded T2] V r] Cc Vc B0 B1 BL
    by (simp add: pipe' and_then_def lift_def)
  note N = naive_explicit [OF U S SL(1)]
  let ?N = "\<lparr>t_legs = [Leg ''vL'' cL [], Leg ''p'' d0 [], Leg ''q'' e0 [], Leg ''vR'' chi []],
       t_dat = (\<lambda>ix. t_dat U (encode [cL, d0, e0] (take (Suc (Suc (Suc 0))) ix) #
                                 drop (Suc (Suc (Suc 0))) ix) *
                       complex_of_real (S ! (drop (Suc (Suc (Suc 0))) ix ! 0)) *
                       complex_of_real (map inverse SL ! (ix ! 0)))\<rparr>"
  have "same_tensor B_L ?N"
    unfolding same_tensor_def
  proof (intro conjI allI impI)
    show "distinct (leg_labels B_L)" by (simp add: BLx leg_labels_def)
    show "distinct (leg_labels ?N)" by (simp add: leg_labels_def)
    show "set (t_legs B_L) = set (t_legs ?N)" by (auto simp: BLx)
  next
    fix h :: "label \<Rightarrow> nat"
    assume "\<forall>L \<in> set (t_legs B_L). h (leg_label L) < leg_dim L"
    then have b: "h ''p'' < d0" "h ''vL'' < cL" "h ''q'' < e0" "h ''vR'' < chi"
      by (simp_all add: BLx)
    let ?a = "h ''vL'' * (d0 * e0) + (h ''p'' * e0 + h ''q'')"
    note dec = decode3 [OF b(1) b(3), of "h ''vL''"]
    have lt: "h ''p'' * e0 + h ''q'' < d0 * e0"
    proof -
      have "h ''p'' * e0 + h ''q'' < h ''p'' * e0 + e0" using b(3) by simp
      also have "\<dots> = (h ''p'' + 1) * e0" by simp
      also have "\<dots> \<le> d0 * e0" using b(1) by (intro mult_le_mono1) simp
      finally show ?thesis .
    qed
    have m: "(h ''p'' * e0 + h ''q'') mod (d0 * e0) = h ''p'' * e0 + h ''q''"
      "(h ''p'' * e0 + h ''q'') div e0 = h ''p''"
      "(h ''p'' * e0 + h ''q'') mod e0 = h ''q''"
      using lt b(3) by (simp_all add: div_mult_add_less)
    have a: "?a < cL * (d0 * e0)"
    proof -
      from lt have "?a < h ''vL'' * (d0 * e0) + d0 * e0" by simp
      also have "\<dots> = (h ''vL'' + 1) * (d0 * e0)" by simp
      also have "\<dots> \<le> cL * (d0 * e0)" using b(2) by (intro mult_le_mono1) simp
      finally show ?thesis .
    qed
    have nz: "SL ! h ''vL'' \<noteq> 0" using SL(2) b(2) by blast
    have thC: "t_dat theta [?a, k]
                 = of_real (SL ! h ''vL'') *
                   t_dat C [h ''p'', k mod (d1 * e1) div e1, h ''vL'', k div (d1 * e1), h ''q'',
                            k mod (d1 * e1) mod e1]" for k
      using b(3) by (simp add: theta dec m scd)
    let ?c = "\<lambda>k. t_dat C [h ''p'', k mod (d1 * e1) div e1, h ''vL'', k div (d1 * e1), h ''q'',
                            k mod (d1 * e1) mod e1] * cnj (t_dat V [h ''vR'', k])"
    have eB: "entry B_L h = (\<Sum>k<cR * (d1 * e1). ?c k) / of_real r"
      by (simp add: entry_def BLx)
    have rB: "of_real r * entry B_L h = (\<Sum>k<cR * (d1 * e1). ?c k)"
      unfolding eB using r by simp
    have "of_real (SL ! h ''vL'') * (of_real r * entry B_L h)
            = (\<Sum>k<cR * (d1 * e1). of_real (SL ! h ''vL'') * ?c k)"
      unfolding rB by (rule sum_distrib_left)
    also have "\<dots> = (\<Sum>k<cR * (d1 * e1). t_dat theta [?a, k] * cnj (t_dat V [h ''vR'', k]))"
      by (rule sum.cong) (simp_all only: thC mult.assoc)
    also have "\<dots> = of_real r * t_dat U [?a, h ''vR''] * of_real (S ! h ''vR'')"
      by (rule theta_V_dagger [where DL = "cL * (d0 * e0)" and chi = chi,
            OF _ _ a b(4)]) (simp_all add: f o)
    finally have "(of_real (SL ! h ''vL'') * of_real r) * entry B_L h
                    = (of_real (SL ! h ''vL'') * of_real r) *
                      (t_dat U [?a, h ''vR''] * of_real (S ! h ''vR'') / of_real (SL ! h ''vL''))"
      using nz by (simp only: mult.assoc times_divide_eq_right) (simp add: mult.left_commute)
    then have "entry B_L h = t_dat U [?a, h ''vR''] * of_real (S ! h ''vR'')
                                  / of_real (SL ! h ''vL'')"
      using nz r by (simp only: mult_cancel_left) simp
    also have "\<dots> = entry ?N h"
      using b(2) SL(1) by (simp add: entry_def divide_inverse)
    finally show "entry B_L h = entry ?N h" .
  qed
  with N show ?thesis by blast
qed

lemma stable_explicit_B:
  assumes C: "t_legs C = [Leg ''q0'' e0 [], Leg ''q1'' e1 [], Leg ''p0'' d0 [], Leg ''p1'' d1 [],
                        Leg ''vL'' cL [], Leg ''vR'' cR []]"
    and V: "t_legs V = [Leg ''vL'' chi [], Leg ''(vR.p1.q1)'' (cR * (d1 * e1))
               [(''vR'', cR), (''p1'', d1), (''q1'', e1)]]"
    and r: "r \<noteq> 0"
  shows "and_then (lift (d_combine_legs C [[''vR'', ''p1'', ''q1'']] []
                    [Leg ''(vR.p1.q1)'' (cR * (d1 * e1))
                       [(''vR'', cR), (''p1'', d1), (''q1'', e1)]])) (\<lambda>Cc.
      and_then (lift (d_conj V)) (\<lambda>Vc.
      and_then (lift (d_tensordot Cc Vc
                        ([Name ''(vR.p1.q1)''], [Name ''(vR*.p1*.q1*)'']))) (\<lambda>B_L0.
      and_then (lift (d_ireplace_labels B_L0 [''vL*'', ''p0'', ''q0'']
                        [''vR'', ''p'', ''q''])) (\<lambda>B_L1.
      lift (d_idiv B_L1 r))))) =
     Inr \<lparr>t_legs = [Leg ''q'' e0 [], Leg ''p'' d0 [], Leg ''vL'' cL [], Leg ''vR'' chi []],
      t_dat = (\<lambda>ix. (\<Sum>k<cR * (d1 * e1).
                         t_dat C
                          [hd ix, k mod (d1 * e1) mod e1,
                           hd (tl (take (Suc (Suc (Suc 0))) ix)),
                           k mod (d1 * e1) div e1,
                           hd (tl (tl (take (Suc (Suc (Suc 0))) ix))),
                           k div (d1 * e1)] *
                         cnj (t_dat V [hd (drop (Suc (Suc (Suc 0))) ix), k])) /
                     complex_of_real r)\<rparr>"
  by (simp add: C V r dense_eval combine_eval and_then_def lift_def d_idiv_def)

lemma stable_is_naive_B:
  assumes T2: "t_legs T2 = [Leg ''q0'' e0 [], Leg ''q1'' e1 [], Leg ''p0'' d0 [], Leg ''p1'' d1 [],
                        Leg ''vL'' cL [], Leg ''vR'' cR []]"
    and sc: "scaled_at 4 (\<lambda>v. of_real (SL ! v)) T2 C"
    and th: "d_combine_legs T2 [[''vL'', ''p0'', ''q0''], [''vR'', ''p1'', ''q1'']] [1, -1] []
               = Some theta"
    and fac: "exact_factorisation theta U S V r"
    and pipe: "d_legs theta 1 = Some pipe"
    and Cc: "d_combine_legs C [[''vR'', ''p1'', ''q1'']] [] [pipe] = Some Cc"
    and Vc: "d_conj V = Some Vc"
    and B0: "d_tensordot Cc Vc ([Name ''(vR.p1.q1)''], [Name ''(vR*.p1*.q1*)'']) = Some BL0"
    and B1: "d_ireplace_labels BL0 [''vL*'', ''p0'', ''q0''] [''vR'', ''p'', ''q''] = Some BL1"
    and BL: "d_idiv BL1 r = Some B_L"
    and SL: "length SL = cL" "\<forall>v<cL. SL ! v \<noteq> 0"
  shows "\<exists>N. naive_B_L SL U S = Some N \<and> same_tensor B_L N"
proof -
  let ?pL = "Leg ''(vL.p0.q0)'' (cL * (d0 * e0)) [(''vL'', cL), (''p0'', d0), (''q0'', e0)]"
  let ?pR = "Leg ''(vR.p1.q1)'' (cR * (d1 * e1)) [(''vR'', cR), (''p1'', d1), (''q1'', e1)]"
  from sc have C: "t_legs C = t_legs T2"
    and scd: "\<And>ix. length ix = 6 \<Longrightarrow> t_dat T2 ix = of_real (SL ! (ix ! 4)) * t_dat C ix"
    by (simp_all add: scaled_at_def T2)
  have theta: "theta = \<lparr>t_legs = [?pL, ?pR],
      t_dat = (\<lambda>ix. t_dat T2
                 [hd (take (Suc 0) ix @ drop (Suc (Suc 0)) ix) mod (d0 * e0) mod e0,
                  ix ! Suc 0 mod (d1 * e1) mod e1,
                  hd (take (Suc 0) ix @ drop (Suc (Suc 0)) ix) mod (d0 * e0) div e0,
                  ix ! Suc 0 mod (d1 * e1) div e1,
                  hd (take (Suc 0) ix @ drop (Suc (Suc 0)) ix) div (d0 * e0),
                  ix ! Suc 0 div (d1 * e1)])\<rparr>"
    using th by (simp add: T2 dense_eval combine_eval)
  from fac obtain chi where
    U: "t_legs U = [?pL, Leg ''vR'' chi []]" and V: "t_legs V = [Leg ''vL'' chi [], ?pR]"
    and S: "length S = chi" and r: "r \<noteq> 0"
    and f: "\<And>a b. a < cL * (d0 * e0) \<Longrightarrow> b < cR * (d1 * e1) \<Longrightarrow>
           t_dat theta [a, b]
             = of_real r * (\<Sum>k<chi. t_dat U [a, k] * of_real (S ! k) * t_dat V [k, b])"
    and o: "\<And>k k'. k < chi \<Longrightarrow> k' < chi \<Longrightarrow>
           (\<Sum>b<cR * (d1 * e1). t_dat V [k, b] * cnj (t_dat V [k', b])) = (if k = k' then 1 else 0)"
    by (auto simp: exact_factorisation_def theta)
  have pipe': "pipe = ?pR"
    using pipe by (simp add: theta d_legs_def)
  have BLx: "B_L = \<lparr>t_legs = [Leg ''q'' e0 [], Leg ''p'' d0 [], Leg ''vL'' cL [], Leg ''vR'' chi []],
      t_dat = (\<lambda>ix. (\<Sum>k<cR * (d1 * e1).
                         t_dat C
                          [hd ix, k mod (d1 * e1) mod e1,
                           hd (tl (take (Suc (Suc (Suc 0))) ix)),
                           k mod (d1 * e1) div e1,
                           hd (tl (tl (take (Suc (Suc (Suc 0))) ix))),
                           k div (d1 * e1)] *
                         cnj (t_dat V [hd (drop (Suc (Suc (Suc 0))) ix), k])) /
                     complex_of_real r)\<rparr>"
    using stable_explicit_B [OF C [unfolded T2] V r] Cc Vc B0 B1 BL
    by (simp add: pipe' and_then_def lift_def)
  note N = naive_explicit [OF U S SL(1)]
  let ?N = "\<lparr>t_legs = [Leg ''vL'' cL [], Leg ''p'' d0 [], Leg ''q'' e0 [], Leg ''vR'' chi []],
       t_dat = (\<lambda>ix. t_dat U (encode [cL, d0, e0] (take (Suc (Suc (Suc 0))) ix) #
                                 drop (Suc (Suc (Suc 0))) ix) *
                       complex_of_real (S ! (drop (Suc (Suc (Suc 0))) ix ! 0)) *
                       complex_of_real (map inverse SL ! (ix ! 0)))\<rparr>"
  have "same_tensor B_L ?N"
    unfolding same_tensor_def
  proof (intro conjI allI impI)
    show "distinct (leg_labels B_L)" by (simp add: BLx leg_labels_def)
    show "distinct (leg_labels ?N)" by (simp add: leg_labels_def)
    show "set (t_legs B_L) = set (t_legs ?N)" by (auto simp: BLx)
  next
    fix h :: "label \<Rightarrow> nat"
    assume "\<forall>L \<in> set (t_legs B_L). h (leg_label L) < leg_dim L"
    then have b: "h ''p'' < d0" "h ''vL'' < cL" "h ''q'' < e0" "h ''vR'' < chi"
      by (simp_all add: BLx)
    let ?a = "h ''vL'' * (d0 * e0) + (h ''p'' * e0 + h ''q'')"
    note dec = decode3 [OF b(1) b(3), of "h ''vL''"]
    have lt: "h ''p'' * e0 + h ''q'' < d0 * e0"
    proof -
      have "h ''p'' * e0 + h ''q'' < h ''p'' * e0 + e0" using b(3) by simp
      also have "\<dots> = (h ''p'' + 1) * e0" by simp
      also have "\<dots> \<le> d0 * e0" using b(1) by (intro mult_le_mono1) simp
      finally show ?thesis .
    qed
    have m: "(h ''p'' * e0 + h ''q'') mod (d0 * e0) = h ''p'' * e0 + h ''q''"
      "(h ''p'' * e0 + h ''q'') div e0 = h ''p''"
      "(h ''p'' * e0 + h ''q'') mod e0 = h ''q''"
      using lt b(3) by (simp_all add: div_mult_add_less)
    have a: "?a < cL * (d0 * e0)"
    proof -
      from lt have "?a < h ''vL'' * (d0 * e0) + d0 * e0" by simp
      also have "\<dots> = (h ''vL'' + 1) * (d0 * e0)" by simp
      also have "\<dots> \<le> cL * (d0 * e0)" using b(2) by (intro mult_le_mono1) simp
      finally show ?thesis .
    qed
    have nz: "SL ! h ''vL'' \<noteq> 0" using SL(2) b(2) by blast
    have thC: "t_dat theta [?a, k]
                 = of_real (SL ! h ''vL'') *
                   t_dat C [h ''q'', k mod (d1 * e1) mod e1, h ''p'', k mod (d1 * e1) div e1,
                            h ''vL'', k div (d1 * e1)]" for k
      using b(3) by (simp add: theta dec m scd)
    let ?c = "\<lambda>k. t_dat C [h ''q'', k mod (d1 * e1) mod e1, h ''p'', k mod (d1 * e1) div e1,
                            h ''vL'', k div (d1 * e1)] * cnj (t_dat V [h ''vR'', k])"
    have eB: "entry B_L h = (\<Sum>k<cR * (d1 * e1). ?c k) / of_real r"
      by (simp add: entry_def BLx)
    have rB: "of_real r * entry B_L h = (\<Sum>k<cR * (d1 * e1). ?c k)"
      unfolding eB using r by simp
    have "of_real (SL ! h ''vL'') * (of_real r * entry B_L h)
            = (\<Sum>k<cR * (d1 * e1). of_real (SL ! h ''vL'') * ?c k)"
      unfolding rB by (rule sum_distrib_left)
    also have "\<dots> = (\<Sum>k<cR * (d1 * e1). t_dat theta [?a, k] * cnj (t_dat V [h ''vR'', k]))"
      by (rule sum.cong) (simp_all only: thC mult.assoc)
    also have "\<dots> = of_real r * t_dat U [?a, h ''vR''] * of_real (S ! h ''vR'')"
      by (rule theta_V_dagger [where DL = "cL * (d0 * e0)" and chi = chi,
            OF _ _ a b(4)]) (simp_all add: f o)
    finally have "(of_real (SL ! h ''vL'') * of_real r) * entry B_L h
                    = (of_real (SL ! h ''vL'') * of_real r) *
                      (t_dat U [?a, h ''vR''] * of_real (S ! h ''vR'') / of_real (SL ! h ''vL''))"
      using nz by (simp only: mult.assoc times_divide_eq_right) (simp add: mult.left_commute)
    then have "entry B_L h = t_dat U [?a, h ''vR''] * of_real (S ! h ''vR'')
                                  / of_real (SL ! h ''vL'')"
      using nz r by (simp only: mult_cancel_left) simp
    also have "\<dots> = entry ?N h"
      using b(2) SL(1) by (simp add: entry_def divide_inverse)
    finally show "entry B_L h = entry ?N h" .
  qed
  with N show ?thesis by blast
qed

lemma plain_legs4:
  assumes "leg_labels T = [a, b, c, d]" "list_all (\<lambda>L. leg_subs L = []) (t_legs T)"
  shows "\<exists>w x y z. t_legs T = [Leg a w [], Leg b x [], Leg c y [], Leg d z []]"
proof -
  from assms(1) obtain A B C D where l: "t_legs T = [A, B, C, D]"
    and n: "leg_label A = a" "leg_label B = b" "leg_label C = c" "leg_label D = d"
    by (auto simp: leg_labels_def)
  from assms(2) have "leg_subs A = []" "leg_subs B = []" "leg_subs C = []" "leg_subs D = []"
    by (simp_all add: l)
  with n have "A = Leg a (leg_dim A) []" "B = Leg b (leg_dim B) []" "C = Leg c (leg_dim C) []"
    "D = Leg d (leg_dim D) []"
    by (cases A; cases B; cases C; cases D; simp)+
  with l show ?thesis by metis
qed

lemma disent_scaled_shape:
  assumes T: "t_legs T = [Leg ''p0'' d0 [], Leg ''p1'' d1 [], Leg ''vL'' cL [], Leg ''vR'' cR [],
                        Leg ''q0'' e0 [], Leg ''q1'' e1 []]"
    and sc: "scaled_at 2 s T T'"
    and Ud: "t_legs Ud = [Leg ''q0'' a0 [], Leg ''q1'' a1 [], Leg ''q0*'' b0 [], Leg ''q1*'' b1 []]
           \<or> t_legs Ud = [Leg ''q0*'' b0 [], Leg ''q1*'' b1 [], Leg ''q0'' a0 [], Leg ''q1'' a1 []]
           \<or> t_legs Ud = [Leg ''q0'' a0 [], Leg ''q0*'' b0 [], Leg ''q1'' a1 [], Leg ''q1*'' b1 []]"
    and td: "d_tensordot Ud T ([Name ''q0*'', Name ''q1*''], [Name ''q0'', Name ''q1'']) = Some T3"
  shows "\<exists>T3'. d_tensordot Ud T' ([Name ''q0*'', Name ''q1*''], [Name ''q0'', Name ''q1''])
                  = Some T3' \<and>
           t_legs T3 = [Leg ''q0'' a0 [], Leg ''q1'' a1 [], Leg ''p0'' d0 [], Leg ''p1'' d1 [],
                        Leg ''vL'' cL [], Leg ''vR'' cR []] \<and>
           scaled_at 4 s T3 T3'"
proof -
  from sc have l: "t_legs T' = t_legs T"
    and d: "\<And>ix. length ix = 6 \<Longrightarrow> t_dat T ix = s (ix ! 2) * t_dat T' ix"
    by (simp_all add: scaled_at_def T)
  from Ud td have dims: "b0 = e0" "b1 = e1"
    by (auto simp: dense_eval T split: if_splits)
  from Ud obtain T3' where
    a: "d_tensordot Ud T' ([Name ''q0*'', Name ''q1*''], [Name ''q0'', Name ''q1'']) = Some T3'"
    by (auto simp: dense_eval T l dims)
  have legs: "t_legs T3 = [Leg ''q0'' a0 [], Leg ''q1'' a1 [], Leg ''p0'' d0 [], Leg ''p1'' d1 [],
                        Leg ''vL'' cL [], Leg ''vR'' cR []]"
    "t_legs T3' = t_legs T3"
    using Ud td a by (auto simp: dense_eval T l dims)
  have "scaled_at 4 s T3 T3'"
    unfolding scaled_at_def
  proof (intro conjI allI impI)
    show "t_legs T3 = t_legs T3'" by (simp add: legs)
    fix ix :: "nat list" assume "length ix = length (t_legs T3)"
    then have "length ix = 6" by (simp add: legs)
    then obtain x0 x1 x2 x3 x4 x5 where ix: "ix = [x0, x1, x2, x3, x4, x5]"
      using list6 by blast
    show "t_dat T3 ix = s (ix ! 4) * t_dat T3' ix"
      using Ud td a by (auto simp: dense_eval T l dims ix d sum_distrib_left mult_ac)
  qed
  with a legs show ?thesis by blast
qed

lemma lift_Inr: "lift m = Inr v \<longleftrightarrow> m = Some v"
  by (cases m) (simp_all add: lift_def)

lemma dense_sel:
  "psi_get_theta (dense_npc f g) = d_get_theta"
  "npc_tensordot (dense_npc f g) = d_tensordot"
  "npc_conj (dense_npc f g) = d_conj"
  "npc_combine_legs (dense_npc f g) = d_combine_legs"
  "npc_split_legs (dense_npc f g) = d_split_legs"
  "npc_ireplace_labels (dense_npc f g) = d_ireplace_labels"
  "npc_legs (dense_npc f g) = d_legs"
  "npc_idiv (dense_npc f g) = d_idiv"
  "svd_theta (dense_npc f g) = f"
  by (simp_all add: dense_npc_def)

lemma column_svd_exact:
  assumes "column_svd theta p [''vR'', ''vL''] = Some (U, S, V, err, r)"
  shows "exact_factorisation theta U S V r"
proof -
  from assms obtain L R where l: "t_legs theta = [L, R]"
    by (auto simp: column_svd_def split: list.splits)
  from assms l have R: "leg_dim R = 1" and r: "r \<noteq> 0"
    and U: "U = \<lparr>t_legs = [L, Leg ''vR'' 1 []],
                  t_dat = (\<lambda>ix. t_dat theta [ix ! 0, 0] / of_real r)\<rparr>"
    and S: "S = [1]"
    and V: "V = \<lparr>t_legs = [Leg ''vL'' 1 [], R], t_dat = (\<lambda>ix. 1)\<rparr>"
    by (auto simp: column_svd_def Let_def split: if_splits)
  show ?thesis
    unfolding exact_factorisation_def
    apply (rule exI [of _ L], rule exI [of _ R], rule exI [of _ 1])
    using r apply (simp add: l R U S V)
    done
qed

lemma dense_engine2_run:
  "\<exists>theta Ud U S V err r B_L B_R.
     update_bond_theta dense1 dense_engine2 1 (gate 1 1 (\<lambda>ix. \<i>)) = Inr (theta, Ud) \<and>
     column_svd theta (TEBD_params dense_engine2) [''vR'', ''vL''] = Some (U, S, V, err, r) \<and>
     update_bond_B dense1 dense_engine2 1 (gate 1 1 (\<lambda>ix. \<i>)) theta Ud V r = Inr (B_L, B_R) \<and>
     (case Ud of None \<Rightarrow> True | Some Ud \<Rightarrow> disentangler_legs Ud)"
  apply (simp add: update_bond_theta_def dense1_def dense_sel dense_engine2_def disentangle_def
       disentangle_backwards_def params1_def get_parameter_def d_get_theta_def site_ok_def
       and_then_def lift_def gate_def dense_eval combine_eval update_bond_B_def
       d_idiv_def d_split_legs_def d_split1_def disentangler_legs_def column_svd_def)
  apply (simp add: lessThan_Suc eval_nat_numeral)
  done

text \<open>C2: over dense tensors with complex entries, when the factorisation of line 93 has
  lost nothing of \<^verbatim>\<open>theta\<close> (it is \<open>r U S V\<close> with orthonormal rows of \<open>V\<close>, so
  that the kept singular vectors span the rows of \<^verbatim>\<open>theta\<close> and of \<^verbatim>\<open>C\<close>) and no old
  weight on the left bond is zero, the left tensor that \<^verbatim>\<open>update_bond\<close> computes from
  \<^verbatim>\<open>C\<close> and the conjugate of \<^verbatim>\<open>V\<close> (lines 109 to 117), with or without a
  disentangler, is the tensor of the naive recipe \<^verbatim>\<open>SL**(-1) U S\<close>: the same legs and the
  same entries.\<close>

theorem stable_left_tensor_is_naive:
  assumes th: "update_bond_theta (dense_npc f g) st i (gate d0 d1 u) = Inr (theta, U_disent)"
    and sv: "f theta (TEBD_params st) [''vR'', ''vL''] = Some (U, S, V, err, r)"
    and B: "update_bond_B (dense_npc f g) st i (gate d0 d1 u) theta U_disent V r
              = Inr (B_L, B_R)"
    and ex: "exact_factorisation theta U S V r"
    and dl: "case U_disent of None \<Rightarrow> True | Some Ud \<Rightarrow> disentangler_legs Ud"
    and nz: "list_all (\<lambda>s. s \<noteq> 0) (d_weights (psi st) ! nat (i - 1))"
  shows "update_bond_locals (dense_npc f g) st i (gate d0 d1 u) = Inr (S, B_L, B_R, err) \<and>
         (\<exists>N. naive_B_L (d_weights (psi st) ! nat (i - 1)) U S = Some N \<and> same_tensor B_L N)"
proof -
  have run: "update_bond_locals (dense_npc f g) st i (gate d0 d1 u) = Inr (S, B_L, B_R, err)"
    by (simp add: update_bond_locals_def th sv B and_then_def lift_def dense_sel)
  let ?SL = "d_weights (psi st) ! nat (i - 1)"
  let ?s = "\<lambda>v. complex_of_real (?SL ! v)"
  let ?pp = "([Name ''p0*'', Name ''p1*''], [Name ''p0'', Name ''p1''])"
  let ?qq = "([Name ''q0*'', Name ''q1*''], [Name ''q0'', Name ''q1''])"
  from th obtain T0 T1 T2 where
    g0: "d_get_theta (psi st) (i - 1) 2 1 = Some T0"
    and g1: "d_tensordot (gate d0 d1 u) T0 ?pp = Some T1"
    and dz: "disentangle (dense_npc f g) st T1 i (gate d0 d1 u) = Inr (T2, U_disent)"
    and cb: "d_combine_legs T2 [[''vL'', ''p0'', ''q0''], [''vR'', ''p1'', ''q1'']] [1, -1] []
               = Some theta"
    by (auto simp: update_bond_theta_def Let_def and_then_Inr lift_Inr dense_sel)
  from B have "\<exists>C0 C1 C pipe Cc Vc BL0 BL1.
      d_get_theta (psi st) (i - 1) 2 0 = Some C0 \<and>
      d_tensordot (gate d0 d1 u) C0 ?pp = Some C1 \<and>
      (case U_disent of None \<Rightarrow> Inr C1 | Some Ud \<Rightarrow> lift (d_tensordot Ud C1 ?qq)) = Inr C \<and>
      d_legs theta 1 = Some pipe \<and>
      d_combine_legs C [[''vR'', ''p1'', ''q1'']] [] [pipe] = Some Cc \<and>
      d_conj V = Some Vc \<and>
      d_tensordot Cc Vc ([Name ''(vR.p1.q1)''], [Name ''(vR*.p1*.q1*)'']) = Some BL0 \<and>
      d_ireplace_labels BL0 [''vL*'', ''p0'', ''q0''] [''vR'', ''p'', ''q''] = Some BL1 \<and>
      d_idiv BL1 r = Some B_L"
    unfolding update_bond_B_def Let_def and_then_Inr lift_Inr dense_sel
    by (elim exE conjE) simp
  then obtain C0 C1 C pipe Cc Vc BL0 BL1 where
    c0: "d_get_theta (psi st) (i - 1) 2 0 = Some C0"
    and c1: "d_tensordot (gate d0 d1 u) C0 ?pp = Some C1"
    and c2: "(case U_disent of None \<Rightarrow> Inr C1 | Some Ud \<Rightarrow> lift (d_tensordot Ud C1 ?qq)) = Inr C"
    and pipe: "d_legs theta 1 = Some pipe"
    and Cc: "d_combine_legs C [[''vR'', ''p1'', ''q1'']] [] [pipe] = Some Cc"
    and Vc: "d_conj V = Some Vc"
    and B0: "d_tensordot Cc Vc ([Name ''(vR.p1.q1)''], [Name ''(vR*.p1*.q1*)'']) = Some BL0"
    and B1: "d_ireplace_labels BL0 [''vL*'', ''p0'', ''q0''] [''vR'', ''p'', ''q''] = Some BL1"
    and BL: "d_idiv BL1 r = Some B_L"
    by (elim exE conjE)
  from get_theta_scaled [OF g0] c0 obtain cL cR a0 a1 e0 e1 where
    l0: "t_legs T0 = theta_legs cL cR a0 a1 e0 e1" and len: "length ?SL = cL"
    and s0: "scaled_at 0 ?s T0 C0"
    by auto
  from gate_scaled [OF l0 s0 g1] c1 have
    l1: "t_legs T1 = [Leg ''p0'' a0 [], Leg ''p1'' a1 [], Leg ''vL'' cL [], Leg ''vR'' cR [],
                      Leg ''q0'' e0 [], Leg ''q1'' e1 []]"
    and s1: "scaled_at 2 ?s T1 C1"
    by auto
  from nz len have nz': "\<forall>v<cL. ?SL ! v \<noteq> 0"
    by (simp add: list_all_length)
  have "\<exists>N. naive_B_L ?SL U S = Some N \<and> same_tensor B_L N"
  proof (cases U_disent)
    case None
    with disentangle_result [OF dz] c2 have "T2 = T1" "C = C1" by simp_all
    with l1 s1 cb show ?thesis
      using stable_is_naive_A [OF _ _ _ ex pipe Cc Vc B0 B1 BL len nz'] by blast
  next
    case (Some Ud)
    with disentangle_result [OF dz] c2 have
      t2: "d_tensordot Ud T1 ?qq = Some T2" and c: "d_tensordot Ud C1 ?qq = Some C"
      by (simp_all add: dense_sel lift_Inr)
    from dl Some have "disentangler_legs Ud" by simp
    then obtain w x y z where
      "t_legs Ud = [Leg ''q0'' w [], Leg ''q1'' x [], Leg ''q0*'' y [], Leg ''q1*'' z []]
     \<or> t_legs Ud = [Leg ''q0*'' y [], Leg ''q1*'' z [], Leg ''q0'' w [], Leg ''q1'' x []]
     \<or> t_legs Ud = [Leg ''q0'' w [], Leg ''q0*'' y [], Leg ''q1'' x [], Leg ''q1*'' z []]"
      unfolding disentangler_legs_def using plain_legs4 [of Ud] by (elim conjE) fastforce
    from disent_scaled_shape [OF l1 s1 this t2] c have
      l2: "t_legs T2 = [Leg ''q0'' w [], Leg ''q1'' x [], Leg ''p0'' a0 [], Leg ''p1'' a1 [],
                        Leg ''vL'' cL [], Leg ''vR'' cR []]"
      and s2: "scaled_at 4 ?s T2 C"
      by auto
    show ?thesis
      by (rule stable_is_naive_B [OF l2 s2 cb ex pipe Cc Vc B0 B1 BL len nz'])
  qed
  with run show ?thesis by (rule conjI)
qed

theorem stable_left_tensor_is_naive_witness:
  "\<exists>theta Ud U S V err r B_L B_R.
     update_bond_theta dense1 dense_engine2 1 (gate 1 1 (\<lambda>ix. \<i>)) = Inr (theta, Ud) \<and>
     column_svd theta (TEBD_params dense_engine2) [''vR'', ''vL''] = Some (U, S, V, err, r) \<and>
     update_bond_B dense1 dense_engine2 1 (gate 1 1 (\<lambda>ix. \<i>)) theta Ud V r = Inr (B_L, B_R) \<and>
     exact_factorisation theta U S V r \<and>
     (case Ud of None \<Rightarrow> True | Some Ud \<Rightarrow> disentangler_legs Ud) \<and>
     list_all (\<lambda>s. s \<noteq> 0) (d_weights (psi dense_engine2) ! nat (1 - 1)) \<and>
     update_bond_locals dense1 dense_engine2 1 (gate 1 1 (\<lambda>ix. \<i>)) = Inr (S, B_L, B_R, err) \<and>
     (\<exists>N. naive_B_L (d_weights (psi dense_engine2) ! nat (1 - 1)) U S = Some N \<and>
          same_tensor B_L N)"
proof -
  from dense_engine2_run obtain theta Ud U S V err r B_L B_R where
    th: "update_bond_theta dense1 dense_engine2 1 (gate 1 1 (\<lambda>ix. \<i>)) = Inr (theta, Ud)"
    and sv: "column_svd theta (TEBD_params dense_engine2) [''vR'', ''vL'']
               = Some (U, S, V, err, r)"
    and B: "update_bond_B dense1 dense_engine2 1 (gate 1 1 (\<lambda>ix. \<i>)) theta Ud V r
              = Inr (B_L, B_R)"
    and dl: "case Ud of None \<Rightarrow> True | Some Ud \<Rightarrow> disentangler_legs Ud"
    by blast
  have ex: "exact_factorisation theta U S V r"
    using sv by (rule column_svd_exact)
  have nz: "list_all (\<lambda>s. s \<noteq> 0) (d_weights (psi dense_engine2) ! nat (1 - 1))"
    by (simp add: dense_engine2_def)
  note r = stable_left_tensor_is_naive [OF th [unfolded dense1_def] sv B [unfolded dense1_def]
      ex dl nz, folded dense1_def]
  from th sv B ex dl nz r show ?thesis
    by blast
qed

subsection \<open>The Renyi iteration does not raise the entropy\<close>






lemma purity_nonneg: "0 \<le> purity I J m"
  unfolding purity_def by (intro sum_nonneg) simp





























lemma renyi_for_values:
  "renyi_for nv theta eps idxs l = Inr l' \<Longrightarrow> renyi_values nv theta eps idxs l \<noteq> [] \<Longrightarrow>
     l_S l' = Some (Fin (last (renyi_values nv theta eps idxs l))) \<or>
     l_Sold l' = Fin (last (renyi_values nv theta eps idxs l))"
proof (induction idxs arbitrary: l)
  case Nil
  then show ?case by simp
next
  case (Cons i rest)
  show ?case
  proof (cases "disentangle_renyi_iter nv theta (l_U l)")
    case (Inl e)
    with Cons.prems show ?thesis by simp
  next
    case (Inr r)
    obtain S U where r: "r = (S, U)" by (cases r)
    note it = Inr [unfolded r]
    let ?l = "l\<lparr>l_i := Some i, l_S := Some (l_Sold l), l_Sold := Fin S, l_U := U\<rparr>"
    show ?thesis
    proof (cases "converged eps (l_Sold l) S")
      case True
      with Cons.prems it show ?thesis by auto
    next
      case False
      with Cons.prems(1) it have f: "renyi_for nv theta eps rest ?l = Inr l'" by simp
      show ?thesis
      proof (cases "renyi_values nv theta eps rest ?l = []")
        case True
        then have "rest = [] \<or> (\<exists>e. disentangle_renyi_iter nv theta (l_U ?l) = Inl e)"
          by (cases rest) (auto split: sum.splits prod.splits)
        with f have "l' = ?l"
          by (cases rest) (auto split: sum.splits prod.splits)
        with it False True show ?thesis by simp
      next
        case ne: False
        from Cons.IH [OF f ne] it False ne show ?thesis by simp
      qed
    qed
  qed
qed









end
